theory Spec2Isabelle
  imports Main
begin

section \<open>Python strings\<close>

text \<open>
  A Python \<open>str\<close> is modelled by its UTF-8 bytes, a \<open>string\<close>.  Every character the
  code below compares with (the slash, the backslash, the dot, the double quote, the
  control characters) is ASCII, so splitting, stripping and replacing act on the bytes as they act on the
  code points.
\<close>

definition backslash :: char where
  "backslash = CHR 0x5C"

text \<open>\<open>s.split(sep)\<close> for a one-character separator: never empty, \<open>''.split('/') == ['']\<close>.\<close>

fun str_split :: "char \<Rightarrow> string \<Rightarrow> string list" where
  "str_split sep [] = [[]]"
| "str_split sep (c # cs) =
     (if c = sep then [] # str_split sep cs
      else (case str_split sep cs of
              [] \<Rightarrow> [[c]]
            | p # ps \<Rightarrow> (c # p) # ps))"

text \<open>\<open>sep.join(xs)\<close>.\<close>

fun str_join :: "string \<Rightarrow> string list \<Rightarrow> string" where
  "str_join sep [] = []"
| "str_join sep [x] = x"
| "str_join sep (x # y # ys) = x @ sep @ str_join sep (y # ys)"

text \<open>\<open>s.lstrip(c)\<close>, \<open>s.rstrip(c)\<close>, \<open>s.replace(a, b)\<close>, \<open>s.startswith(p)\<close>, \<open>s.endswith(p)\<close>.\<close>

definition str_lstrip :: "char \<Rightarrow> string \<Rightarrow> string" where
  "str_lstrip c s = dropWhile (\<lambda>x. x = c) s"

definition str_rstrip :: "char \<Rightarrow> string \<Rightarrow> string" where
  "str_rstrip c s = rev (dropWhile (\<lambda>x. x = c) (rev s))"

definition str_replace :: "char \<Rightarrow> char \<Rightarrow> string \<Rightarrow> string" where
  "str_replace a b s = map (\<lambda>x. if x = a then b else x) s"

definition startswith :: "string \<Rightarrow> string \<Rightarrow> bool" where
  "startswith s p = (take (length p) s = p)"

definition endswith :: "string \<Rightarrow> string \<Rightarrow> bool" where
  "endswith s p = (length p \<le> length s \<and> drop (length s - length p) s = p)"

text \<open>\<open>s.lower()\<close> on ASCII (the header names looked up below are ASCII literals).\<close>

definition char_lower :: "char \<Rightarrow> char" where
  "char_lower c =
     (let n = (of_char c :: nat) in if 65 \<le> n \<and> n \<le> 90 then char_of (n + 32) else c)"

definition str_lower :: "string \<Rightarrow> string" where
  "str_lower s = map char_lower s"

section \<open>posixpath\<close>

text \<open>
  \<open>posixpath.normpath\<close>, \<open>posixpath.split\<close>, \<open>posixpath.splitdrive\<close> and
  \<open>posixpath.join\<close> of the standard library.  \<open>os.path\<close> is taken to be
  \<open>posixpath\<close>: the server runs on a POSIX host.
\<close>

fun normpath_comps :: "nat \<Rightarrow> string list \<Rightarrow> string list \<Rightarrow> string list" where
  "normpath_comps initial_slashes new_comps [] = new_comps"
| "normpath_comps initial_slashes new_comps (cmp # comps) =
     (if cmp = [] \<or> cmp = ''.'' then normpath_comps initial_slashes new_comps comps
      else if cmp \<noteq> ''..'' \<or> (initial_slashes = 0 \<and> new_comps = [])
                \<or> (new_comps \<noteq> [] \<and> last new_comps = ''..'')
      then normpath_comps initial_slashes (new_comps @ [cmp]) comps
      else if new_comps \<noteq> [] then normpath_comps initial_slashes (butlast new_comps) comps
      else normpath_comps initial_slashes new_comps comps)"

definition posixpath_normpath :: "string \<Rightarrow> string" where
  "posixpath_normpath path =
     (if path = [] then ''.''
      else
        let initial_slashes =
              (if startswith path ''/'' then
                 (if startswith path ''//'' \<and> \<not> startswith path ''///'' then 2 else 1)
               else (0::nat));
            comps = normpath_comps initial_slashes [] (str_split CHR ''/'' path);
            path' = replicate initial_slashes CHR ''/'' @ str_join ''/'' comps
        in if path' = [] then ''.'' else path')"

definition os_path_splitdrive :: "string \<Rightarrow> string \<times> string" where
  "os_path_splitdrive p = ([], p)"

text \<open>\<open>i = p.rfind('/') + 1\<close>: the length of the longest prefix that ends with a slash.\<close>

definition rfind_slash_plus1 :: "string \<Rightarrow> nat" where
  "rfind_slash_plus1 p = length p - length (takeWhile (\<lambda>c. c \<noteq> CHR ''/'') (rev p))"

definition os_path_split :: "string \<Rightarrow> string \<times> string" where
  "os_path_split p =
     (let i = rfind_slash_plus1 p;
          head = take i p;
          tail = drop i p
      in (if head \<noteq> [] \<and> head \<noteq> replicate (length head) CHR ''/''
          then str_rstrip CHR ''/'' head else head, tail))"

definition os_path_join :: "string \<Rightarrow> string \<Rightarrow> string" where
  "os_path_join a b =
     (if startswith b ''/'' then b
      else if a = [] \<or> endswith a ''/'' then a @ b
      else a @ ''/'' @ b)"

section \<open>Python values, exceptions and objects\<close>

text \<open>
  The values an error context carries: \<open>None\<close>, a \<open>str\<close>, a list, or a \<open>dict\<close> with
  string keys.  A \<open>dict\<close> is an association list with distinct keys, in insertion order.
\<close>

datatype pyval = PNone | PStr string | PList "pyval list" | PDict "(string \<times> pyval) list"

type_synonym pydict = "(string \<times> pyval) list"

datatype exn =
    ValueError string
  | KeyError string
  | TypeError
  | AttributeError
  | Exception string

text \<open>\<open>d[k] = v\<close> keeps the position of a key already present and appends a new one;
  \<open>d.update(other)\<close> stores the items of \<open>other\<close> in order; \<open>d.get(k)\<close> is \<open>map_of d k\<close>.\<close>

fun dict_set :: "'k \<Rightarrow> 'v \<Rightarrow> ('k \<times> 'v) list \<Rightarrow> ('k \<times> 'v) list" where
  "dict_set k v [] = [(k, v)]"
| "dict_set k v (p # ps) = (if fst p = k then (k, v) # ps else p # dict_set k v ps)"

fun dict_update :: "('k \<times> 'v) list \<Rightarrow> ('k \<times> 'v) list \<Rightarrow> ('k \<times> 'v) list" where
  "dict_update d [] = d"
| "dict_update d (p # ps) = dict_update (dict_set (fst p) (snd p) d) ps"

text \<open>
  A request carries its raw headers (name and value, the names in lower case as the
  server delivers them) and the two attributes the guards set on it.  The objects a
  handler can be handed live in a heap, so that a guard's \<open>setattr\<close> and
  \<open>context.update\<close> are seen by whoever holds the same object.
\<close>

record request =
  headers :: "(string \<times> string) list"
  best_response_mimetype :: "string option"
  mimetype :: "string option"

type_synonym addr = nat

datatype obj = RequestObj request | DictObj pydict | OtherObj

type_synonym heap = "addr \<Rightarrow> obj"

datatype pyarg = ArgNone | ArgRef addr

text \<open>\<open>request.headers\<close>: an \<open>AttributeError\<close> on \<open>None\<close> or on an object that is no request.\<close>

definition request_headers :: "heap \<Rightarrow> pyarg \<Rightarrow> exn + (string \<times> string) list" where
  "request_headers h r =
     (case r of
        ArgNone \<Rightarrow> Inl AttributeError
      | ArgRef a \<Rightarrow> (case h a of RequestObj req \<Rightarrow> Inr (headers req) | _ \<Rightarrow> Inl AttributeError))"

text \<open>\<open>headers.get(name, default)\<close>: the name is lower-cased, the first raw header of
  that name wins.\<close>

definition headers_lookup :: "(string \<times> string) list \<Rightarrow> string \<Rightarrow> string option" where
  "headers_lookup hs name = map_of hs (str_lower name)"

definition headers_get :: "(string \<times> string) list \<Rightarrow> string \<Rightarrow> string \<Rightarrow> string" where
  "headers_get hs name dflt = (case headers_lookup hs name of None \<Rightarrow> dflt | Some v \<Rightarrow> v)"

section \<open>Responses\<close>

datatype xml = Element (tag: string) (xml_text: "string option") (children: "xml list")

text \<open>
  A body is a \<open>str\<close>, or the bytes \<open>etree.tostring(doc, pretty_print=False, method='xml')\<close>
  of a document, kept as the document.
\<close>

datatype body = Str string | XmlBytes xml

text \<open>
  \<open>Response status_code content media_type headers\<close>, with the headers the code sets,
  and \<open>FileResponse path media_type\<close>.
\<close>

datatype response =
    Response int "body option" "string option" "(string \<times> string) list"
  | FileResponse string string

section \<open>What the module imports\<close>

text \<open>
  \<open>best_match\<close> and \<open>parse_mime_type\<close> are the repository's \<open>mimeparser\<close> module, which is
  not among the sources; \<open>parse_mime_type\<close> answers \<open>None\<close> where it raises
  \<open>InvalidMimeType\<close>.  \<open>unquote\<close> is \<open>urllib.parse.unquote\<close>, \<open>isfile\<close> is
  \<open>os.path.isfile\<close> on the host's file system, \<open>USE_XSENDFILE\<close> the truth value of the
  setting.  \<open>xml_tag_ok\<close> and \<open>xml_text_ok\<close> say which strings \<open>lxml\<close> takes as a tag
  name and as text (it raises \<open>ValueError\<close> on the others), and \<open>py_repr\<close> is \<open>str()\<close> of
  a list or a \<open>dict\<close>.
\<close>

record env =
  best_match :: "string list \<Rightarrow> string \<Rightarrow> string"
  parse_mime_type :: "string \<Rightarrow> (string \<times> (string \<times> string) list) option"
  unquote :: "string \<Rightarrow> string"
  isfile :: "string \<Rightarrow> bool"
  USE_XSENDFILE :: bool
  xml_tag_ok :: "string \<Rightarrow> bool"
  xml_text_ok :: "string \<Rightarrow> bool"
  py_repr :: "pyval \<Rightarrow> string"

definition py_str :: "env \<Rightarrow> pyval \<Rightarrow> string" where
  "py_str e v = (case v of PStr s \<Rightarrow> s | PNone \<Rightarrow> ''None'' | _ \<Rightarrow> py_repr e v)"

section \<open>The error formatters\<close>

text \<open>\<open>orjson.dumps(v).decode("utf-8")\<close>: compact JSON, the quote, the backslash and the
  control characters below 0x20 escaped, every other byte as it is.\<close>

definition dquote :: char where
  "dquote = CHR 0x22"

definition hex_digit :: "nat \<Rightarrow> char" where
  "hex_digit n = (if n < 10 then char_of (48 + n) else char_of (87 + n))"

definition json_escape_char :: "char \<Rightarrow> string" where
  "json_escape_char c =
     (let n = (of_char c :: nat) in
      if c = dquote then [backslash, dquote]
      else if c = backslash then [backslash, backslash]
      else if n = 8 then [backslash, CHR ''b'']
      else if n = 9 then [backslash, CHR ''t'']
      else if n = 10 then [backslash, CHR ''n'']
      else if n = 12 then [backslash, CHR ''f'']
      else if n = 13 then [backslash, CHR ''r'']
      else if n < 32 then
        [backslash, CHR ''u'', CHR ''0'', CHR ''0'', hex_digit (n div 16), hex_digit (n mod 16)]
      else [c])"

definition json_string :: "string \<Rightarrow> string" where
  "json_string s = dquote # concat (map json_escape_char s) @ [dquote]"

fun json_dumps :: "pyval \<Rightarrow> string" where
  "json_dumps PNone = ''null''"
| "json_dumps (PStr s) = json_string s"
| "json_dumps (PList xs) = ''['' @ str_join '','' (map json_dumps xs) @ '']''"
| "json_dumps (PDict kvs) =
     ''{'' @ str_join '','' (map (\<lambda>p. json_string (fst p) @ '':'' @ json_dumps (snd p)) kvs) @ ''}''"

type_synonym formatter = "pyarg \<Rightarrow> string \<Rightarrow> int \<Rightarrow> pydict \<Rightarrow> exn + body"

definition get_json_error_response :: "env \<Rightarrow> formatter" where
  "get_json_error_response e request mimetype' status_code context =
     (case map_of context ''error_msg'' of
        None \<Rightarrow> Inl (KeyError ''error_msg'')
      | Some m \<Rightarrow>
          (let body = [(''description'', PStr (py_str e m))];
               body' = (case map_of context ''details'' of
                          None \<Rightarrow> body
                        | Some PNone \<Rightarrow> body
                        | Some d \<Rightarrow> dict_set ''details'' d body)
           in Inr (Str (json_dumps (PDict body')))))"

definition get_plain_text_error_response :: "env \<Rightarrow> formatter" where
  "get_plain_text_error_response e request mimetype' status_code context =
     (case map_of context ''error_msg'' of
        None \<Rightarrow> Inl (KeyError ''error_msg'')
      | Some m \<Rightarrow> Inr (Str (py_str e m)))"

text \<open>\<open>x.text = value\<close>: \<open>None\<close> clears the text, a \<open>str\<close> must be XML compatible, anything
  else is a \<open>TypeError\<close>.\<close>

definition set_text :: "env \<Rightarrow> pyval \<Rightarrow> exn + string option" where
  "set_text e v =
     (case v of
        PNone \<Rightarrow> Inr None
      | PStr s \<Rightarrow> if xml_text_ok e s then Inr (Some s)
                  else Inl (ValueError ''All strings must be XML compatible'')
      | _ \<Rightarrow> Inl TypeError)"

text \<open>The loop \<open>for value in context['details'][key]\<close>: one \<open>element\<close> child per value.\<close>

fun list_elements :: "env \<Rightarrow> pyval list \<Rightarrow> exn + xml list" where
  "list_elements e [] = Inr []"
| "list_elements e (v # vs) =
     (case set_text e v of
        Inl x \<Rightarrow> Inl x
      | Inr t \<Rightarrow>
          (case list_elements e vs of
             Inl x \<Rightarrow> Inl x
           | Inr es \<Rightarrow> Inr (Element ''element'' t [] # es)))"

text \<open>
  One key of a \<open>details\<close> mapping.  The three branches of the source are taken in its
  order: a \<open>str\<close>; then whatever has \<open>__iter__\<close>, which a list has and a \<open>dict\<close> has too
  (iterating a \<open>dict\<close> yields its keys); the last branch is left for values that cannot
  be iterated, where its \<open>for\<close> raises.
\<close>

definition key_element :: "env \<Rightarrow> string \<Rightarrow> pyval \<Rightarrow> exn + xml" where
  "key_element e key v =
     (if \<not> xml_tag_ok e key then Inl (ValueError ''Invalid tag name'')
      else
        (case v of
           PStr s \<Rightarrow>
             (case set_text e (PStr s) of Inl x \<Rightarrow> Inl x | Inr t \<Rightarrow> Inr (Element key t []))
         | PList vs \<Rightarrow>
             (case list_elements e vs of Inl x \<Rightarrow> Inl x | Inr es \<Rightarrow> Inr (Element key None es))
         | PDict kvs \<Rightarrow>
             (case list_elements e (map (\<lambda>p. PStr (fst p)) kvs) of
                Inl x \<Rightarrow> Inl x
              | Inr es \<Rightarrow> Inr (Element key None es))
         | PNone \<Rightarrow> Inl TypeError))"

text \<open>The loop \<open>for key in context['details']\<close> over a mapping.\<close>

fun key_elements :: "env \<Rightarrow> pydict \<Rightarrow> exn + xml list" where
  "key_elements e [] = Inr []"
| "key_elements e (p # ps) =
     (case key_element e (fst p) (snd p) of
        Inl x \<Rightarrow> Inl x
      | Inr el \<Rightarrow>
          (case key_elements e ps of
             Inl x \<Rightarrow> Inl x
           | Inr els \<Rightarrow> Inr (el # els)))"

text \<open>
  The \<open>details\<close> child.  A list is outside the declared type of \<open>details\<close>: the same loop
  then takes its items as keys, and fails at the first one, on the tag or on the
  subscript.
\<close>

definition details_child :: "env \<Rightarrow> pyval \<Rightarrow> exn + xml" where
  "details_child e d =
     (case d of
        PStr s \<Rightarrow>
          (case set_text e (PStr s) of Inl x \<Rightarrow> Inl x | Inr t \<Rightarrow> Inr (Element ''details'' t []))
      | PDict kvs \<Rightarrow>
          (case key_elements e kvs of
             Inl x \<Rightarrow> Inl x
           | Inr els \<Rightarrow> Inr (Element ''details'' None els))
      | PList [] \<Rightarrow> Inr (Element ''details'' None [])
      | PList (PStr k # _) \<Rightarrow>
          (if xml_tag_ok e k then Inl TypeError else Inl (ValueError ''Invalid tag name''))
      | PList (_ # _) \<Rightarrow> Inl TypeError
      | PNone \<Rightarrow> Inl TypeError)"

definition get_xml_error_response :: "env \<Rightarrow> formatter" where
  "get_xml_error_response e request mimetype' status_code context =
     (case map_of context ''error_msg'' of
        None \<Rightarrow> Inl (KeyError ''error_msg'')
      | Some m \<Rightarrow>
          (case set_text e (PStr (py_str e m)) of
             Inl x \<Rightarrow> Inl x
           | Inr t \<Rightarrow>
               (let description = Element ''description'' t [] in
                case map_of context ''details'' of
                  None \<Rightarrow> Inr (XmlBytes (Element ''error'' None [description]))
                | Some PNone \<Rightarrow> Inr (XmlBytes (Element ''error'' None [description]))
                | Some d \<Rightarrow>
                    (case details_child e d of
                       Inl x \<Rightarrow> Inl x
                     | Inr details_element \<Rightarrow>
                         Inr (XmlBytes (Element ''error'' None [description, details_element]))))))"

definition ERROR_FORMATTERS :: "env \<Rightarrow> (string \<times> formatter) list" where
  "ERROR_FORMATTERS e =
     [(''application/json; charset=utf-8'', get_json_error_response e),
      (''application/xml; charset=utf-8'', get_xml_error_response e),
      (''text/plain; charset=utf-8'', get_plain_text_error_response e),
      ([], get_plain_text_error_response e)]"

section \<open>Building responses\<close>

text \<open>\<open>response.headers[name] = value\<close> for each caller header, in order.\<close>

definition set_headers :: "(string \<times> string) list option \<Rightarrow> (string \<times> string) list" where
  "set_headers hs = (case hs of None \<Rightarrow> [] | Some l \<Rightarrow> dict_update [] l)"

text \<open>The content type of \<open>build_response\<close>: JSON for an \<open>XMLHttpRequest\<close>, else the
  negotiator's choice among the formatter keys without the fallback key.\<close>

definition resolve_content_type ::
  "env \<Rightarrow> (string \<times> string) list \<Rightarrow> (string \<times> formatter) list \<Rightarrow> exn + string" where
  "resolve_content_type e rh formatters =
     (if headers_get rh ''X-Requested-With'' [] = ''XMLHttpRequest''
      then Inr ''application/json; charset=utf-8''
      else
        (let formatter_keys = map fst formatters in
         if [] \<in> set formatter_keys
         then Inr (best_match e (remove1 [] formatter_keys) (headers_get rh ''Accept'' ''*/*''))
         else Inl (ValueError ''list.remove(x): x not in list'')))"

definition build_response ::
  "env \<Rightarrow> heap \<Rightarrow> pyarg \<Rightarrow> int \<Rightarrow> pydict \<Rightarrow> (string \<times> formatter) list
     \<Rightarrow> (string \<times> string) list option \<Rightarrow> exn + response" where
  "build_response e h request status_code context formatters hdrs =
     (case request_headers h request of
        Inl x \<Rightarrow> Inl x
      | Inr rh \<Rightarrow>
          (case resolve_content_type e rh formatters of
             Inl x \<Rightarrow> Inl x
           | Inr content_type \<Rightarrow>
               (case map_of formatters content_type of
                  None \<Rightarrow> Inl (Exception ''No suitable formatter found'')
                | Some formatter \<Rightarrow>
                    (case formatter request content_type status_code context of
                       Inl x \<Rightarrow> Inl x
                     | Inr b \<Rightarrow>
                         Inr (Response status_code (Some b) (Some content_type) (set_headers hdrs))))))"

text \<open>
  \<open>context\<close> is \<open>None\<close> or a reference to the caller's dictionary, which
  \<open>context.update\<close> changes in the heap.
\<close>

definition build_error_response ::
  "env \<Rightarrow> heap \<Rightarrow> pyarg \<Rightarrow> int \<Rightarrow> string \<Rightarrow> (string \<times> formatter) list option
     \<Rightarrow> (string \<times> string) list option \<Rightarrow> pyval \<Rightarrow> addr option \<Rightarrow> (exn + response) \<times> heap" where
  "build_error_response e h request status_code error_msg extra_formats hdrs details context =
     (let formatters =
            (case extra_formats of
               Some ef \<Rightarrow> dict_update ef (ERROR_FORMATTERS e)
             | None \<Rightarrow> ERROR_FORMATTERS e);
          items = [(''error_msg'', PStr error_msg), (''details'', details)]
      in
        (case context of
           None \<Rightarrow> (build_response e h request status_code (dict_update [] items) formatters hdrs, h)
         | Some a \<Rightarrow>
             (case h a of
                DictObj d \<Rightarrow>
                  (let d' = dict_update d items;
                       h' = h(a := DictObj d')
                   in (build_response e h' request status_code d' formatters hdrs, h'))
              | _ \<Rightarrow> (Inl AttributeError, h))))"

definition build_not_found_response :: "env \<Rightarrow> heap \<Rightarrow> pyarg \<Rightarrow> (exn + response) \<times> heap" where
  "build_not_found_response e h request =
     build_error_response e h request 404 ''Page Not Found'' None None PNone None"

definition get_content_type ::
  "env \<Rightarrow> heap \<Rightarrow> pyarg \<Rightarrow> exn + string \<times> (string \<times> string) list" where
  "get_content_type e h request =
     (case request_headers h request of
        Inl x \<Rightarrow> Inl x
      | Inr rh \<Rightarrow>
          (case headers_lookup rh ''Content-Type'' of
             None \<Rightarrow> Inr ([], [])
           | Some content_type_header \<Rightarrow>
               (case parse_mime_type e content_type_header of
                  Some r \<Rightarrow> Inr r
                | None \<Rightarrow> Inr ([], []))))"

section \<open>Request guards\<close>

text \<open>
  What a call gives back: a plain value, or a coroutine object.  A coroutine holds the
  body that is still to be run; nothing of it has run when the call returns, and
  awaiting it runs the body on the heap as it then is.
\<close>

datatype 'r called = Returned 'r | Coroutine "heap \<Rightarrow> 'r \<times> heap"

text \<open>
  A handler as the guards see it: the parameter names of its signature, whether
  \<open>inspect.iscoroutinefunction\<close> holds of it, and what the call
  \<open>handler(*args, **kwargs)\<close> does: from the positional and keyword arguments and the
  heap to the value the call gives back and the heap it leaves.
\<close>

record 'r handler =
  parameters :: "string list"
  iscoroutinefunction :: bool
  call :: "pyarg list \<Rightarrow> (string \<times> pyarg) list \<Rightarrow> heap \<Rightarrow> 'r called \<times> heap"

text \<open>\<open>def\<close> and \<open>async def\<close>: a function runs its body when it is called, a coroutine
  function answers the call with the coroutine of its body.\<close>

definition sync_def ::
  "(pyarg list \<Rightarrow> (string \<times> pyarg) list \<Rightarrow> heap \<Rightarrow> 'r \<times> heap)
     \<Rightarrow> pyarg list \<Rightarrow> (string \<times> pyarg) list \<Rightarrow> heap \<Rightarrow> 'r called \<times> heap" where
  "sync_def body args kwargs h = (Returned (fst (body args kwargs h)), snd (body args kwargs h))"

definition async_def ::
  "(pyarg list \<Rightarrow> (string \<times> pyarg) list \<Rightarrow> heap \<Rightarrow> 'r \<times> heap)
     \<Rightarrow> pyarg list \<Rightarrow> (string \<times> pyarg) list \<Rightarrow> heap \<Rightarrow> 'r called \<times> heap" where
  "async_def body args kwargs h = (Coroutine (body args kwargs), h)"

text \<open>\<open>await x\<close>: a coroutine is run, a plain value cannot be awaited.\<close>

definition py_await :: "'r called \<times> heap \<Rightarrow> (exn + 'r) \<times> heap" where
  "py_await x =
     (case fst x of
        Coroutine body \<Rightarrow> (Inr (fst (body (snd x))), snd (body (snd x)))
      | Returned r \<Rightarrow> (Inl TypeError, snd x))"

text \<open>What awaiting a wrapper gives back: an exception, the guard's own response, or
  the value the wrapper returns from the wrapped handler.\<close>

datatype 'r guard_result = Raised exn | Responded response | Delegated "'r called"

fun check_decorator_params :: "'r handler \<Rightarrow> string list \<Rightarrow> exn + unit" where
  "check_decorator_params handler [] = Inr ()"
| "check_decorator_params handler (param_name # params) =
     (if param_name \<notin> set (parameters handler) \<and> (CHR ''_'' # param_name) \<notin> set (parameters handler)
      then Inl (ValueError (''The handler must have a '' @ param_name @ '' parameter''))
      else check_decorator_params handler params)"

text \<open>\<open>kwargs.get(name, default)\<close>.\<close>

definition kwargs_get :: "(string \<times> pyarg) list \<Rightarrow> string \<Rightarrow> pyarg \<Rightarrow> pyarg" where
  "kwargs_get kwargs name dflt = (case map_of kwargs name of None \<Rightarrow> dflt | Some v \<Rightarrow> v)"

definition respond :: "(exn + response) \<times> heap \<Rightarrow> 'r guard_result \<times> heap" where
  "respond r = (case fst r of Inl x \<Rightarrow> (Raised x, snd r) | Inr resp \<Rightarrow> (Responded resp, snd r))"

text \<open>
  The end of each wrapper: \<open>return await handler(*args, **kwargs)\<close> for a coroutine
  function, \<open>return handler(*args, **kwargs)\<close> otherwise, which returns what the call
  gave back as it is.
\<close>

definition delegate :: "'r handler \<Rightarrow> pyarg list \<Rightarrow> (string \<times> pyarg) list \<Rightarrow> heap \<Rightarrow> 'r guard_result \<times> heap" where
  "delegate handler args kwargs h =
     (let is_async = iscoroutinefunction handler in
      if is_async then
        (case fst (py_await (call handler args kwargs h)) of
           Inl x \<Rightarrow> (Raised x, snd (py_await (call handler args kwargs h)))
         | Inr r \<Rightarrow> (Delegated (Returned r), snd (py_await (call handler args kwargs h))))
      else (Delegated (fst (call handler args kwargs h)), snd (call handler args kwargs h)))"

definition authentication_required_wrapper ::
  "env \<Rightarrow> 'r handler \<Rightarrow> pyarg list \<Rightarrow> (string \<times> pyarg) list \<Rightarrow> heap \<Rightarrow> 'r guard_result \<times> heap" where
  "authentication_required_wrapper e handler args kwargs h =
     (let user = kwargs_get kwargs ''user'' (kwargs_get kwargs ''_user'' ArgNone);
          request = kwargs_get kwargs ''request'' (kwargs_get kwargs ''_request'' ArgNone)
      in if user = ArgNone
         then respond (build_error_response e h request 401 ''Authentication Required'' None None PNone None)
         else delegate handler args kwargs h)"

text \<open>\<open>functools.wraps\<close> leaves the wrapper with the signature of the handler; the wrapper
  is an \<open>async def\<close>, and \<open>authentication_required_wrapper\<close> is its body.\<close>

definition authentication_required :: "env \<Rightarrow> 'r handler \<Rightarrow> exn + ('r guard_result) handler" where
  "authentication_required e handler =
     (case check_decorator_params handler [''user'', ''request''] of
        Inl x \<Rightarrow> Inl x
      | Inr _ \<Rightarrow>
          Inr \<lparr>parameters = parameters handler, iscoroutinefunction = True,
               call = async_def (authentication_required_wrapper e handler)\<rparr>)"

text \<open>\<open>setattr(request, name, value)\<close> for the two attributes the guards set.\<close>

definition set_best_response_mimetype :: "heap \<Rightarrow> pyarg \<Rightarrow> string \<Rightarrow> exn + heap" where
  "set_best_response_mimetype h r v =
     (case r of
        ArgNone \<Rightarrow> Inl AttributeError
      | ArgRef a \<Rightarrow>
          (case h a of
             RequestObj req \<Rightarrow> Inr (h(a := RequestObj (req\<lparr>best_response_mimetype := Some v\<rparr>)))
           | _ \<Rightarrow> Inl AttributeError))"

definition set_mimetype :: "heap \<Rightarrow> pyarg \<Rightarrow> string \<Rightarrow> exn + heap" where
  "set_mimetype h r v =
     (case r of
        ArgNone \<Rightarrow> Inl AttributeError
      | ArgRef a \<Rightarrow>
          (case h a of
             RequestObj req \<Rightarrow> Inr (h(a := RequestObj (req\<lparr>mimetype := Some v\<rparr>)))
           | _ \<Rightarrow> Inl AttributeError))"

definition not_acceptable_msg :: string where
  "not_acceptable_msg = ''The requested resource is only capable of generating content not acceptable according to the Accept headers sent in the request''"

definition produces_wrapper ::
  "env \<Rightarrow> string list \<Rightarrow> 'r handler \<Rightarrow> pyarg list \<Rightarrow> (string \<times> pyarg) list \<Rightarrow> heap
     \<Rightarrow> 'r guard_result \<times> heap" where
  "produces_wrapper e mime_types handler args kwargs h =
     (let request = kwargs_get kwargs ''request'' (kwargs_get kwargs ''_request'' ArgNone) in
      case request_headers h request of
        Inl x \<Rightarrow> (Raised x, h)
      | Inr rh \<Rightarrow>
          (let accept_header = headers_get rh ''Accept'' ''*/*'';
               best = best_match e mime_types accept_header
           in case set_best_response_mimetype h request best of
                Inl x \<Rightarrow> (Raised x, h)
              | Inr h' \<Rightarrow>
                  if best = []
                  then
                    (let msg = not_acceptable_msg;
                         details = PDict [(''supported_mime_types'', PList (map PStr mime_types))]
                     in respond (build_error_response e h' request 406 msg None None details None))
                  else delegate handler args kwargs h'))"

definition produces :: "env \<Rightarrow> string list \<Rightarrow> 'r handler \<Rightarrow> exn + ('r guard_result) handler" where
  "produces e mime_types handler =
     (case check_decorator_params handler [''request''] of
        Inl x \<Rightarrow> Inl x
      | Inr _ \<Rightarrow>
          Inr \<lparr>parameters = parameters handler, iscoroutinefunction = True,
               call = async_def (produces_wrapper e mime_types handler)\<rparr>)"

definition consumes_wrapper ::
  "env \<Rightarrow> string list \<Rightarrow> 'r handler \<Rightarrow> pyarg list \<Rightarrow> (string \<times> pyarg) list \<Rightarrow> heap
     \<Rightarrow> 'r guard_result \<times> heap" where
  "consumes_wrapper e mime_types handler args kwargs h =
     (let request = kwargs_get kwargs ''request'' (kwargs_get kwargs ''_request'' ArgNone) in
      case get_content_type e h request of
        Inl x \<Rightarrow> (Raised x, h)
      | Inr ct \<Rightarrow>
          (case set_mimetype h request (fst ct) of
             Inl x \<Rightarrow> (Raised x, h)
           | Inr h' \<Rightarrow>
               if fst ct \<notin> set mime_types
               then
                 (let msg = ''Unsupported request media type'' in
                  respond (build_error_response e h' request 415 msg None None PNone None))
               else delegate handler args kwargs h'))"

definition consumes :: "env \<Rightarrow> string list \<Rightarrow> 'r handler \<Rightarrow> exn + ('r guard_result) handler" where
  "consumes e mime_types handler =
     (case check_decorator_params handler [''request''] of
        Inl x \<Rightarrow> Inl x
      | Inr _ \<Rightarrow>
          Inr \<lparr>parameters = parameters handler, iscoroutinefunction = True,
               call = async_def (consumes_wrapper e mime_types handler)\<rparr>)"

section \<open>Serving a file\<close>

text \<open>The loop of \<open>build_downloadfile_response\<close> over the parts of the path.\<close>

fun strip_parts :: "string \<Rightarrow> string list \<Rightarrow> string" where
  "strip_parts newpath [] = newpath"
| "strip_parts newpath (part # parts) =
     (let part1 = snd (os_path_splitdrive part);
          part2 = snd (os_path_split part1)
      in if part2 = ''.'' \<or> part2 = ''..'' then strip_parts newpath parts
         else strip_parts (str_replace backslash CHR ''/'' (os_path_join newpath part2)) parts)"

definition download_path :: "env \<Rightarrow> string \<Rightarrow> string" where
  "download_path e file_path = str_lstrip CHR ''/'' (posixpath_normpath (unquote e file_path))"

definition download_newpath :: "env \<Rightarrow> string \<Rightarrow> string" where
  "download_newpath e file_path = strip_parts [] (str_split CHR ''/'' (download_path e file_path))"


definition build_downloadfile_response ::
  "env \<Rightarrow> heap \<Rightarrow> pyarg \<Rightarrow> string \<Rightarrow> string \<Rightarrow> (exn + response) \<times> heap" where
  "build_downloadfile_response e h request file_path base_dir =
     (let path = download_path e file_path;
          newpath = download_newpath e file_path
      in if newpath \<noteq> [] \<and> path \<noteq> newpath
         then (Inr (Response 302 None None [(''Location'', newpath)]), h)
         else
           (let fullpath = os_path_join base_dir newpath in
            if \<not> isfile e fullpath then build_not_found_response e h request
            else if \<not> USE_XSENDFILE e
            then (Inr (FileResponse fullpath ''application/octet-stream''), h)
            else (Inr (Response 200 None None [(''X-Sendfile'', fullpath)]), h)))"

section \<open>What the imported functions are relied on for\<close>

text \<open>
  The negotiator answers with one of the supported types or with the empty string.
\<close>

definition negotiates :: "env \<Rightarrow> bool" where
  "negotiates e = (\<forall>supported accept. best_match e supported accept = [] \<or> best_match e supported accept \<in> set supported)"

text \<open>Printable ASCII, which \<open>lxml\<close> takes as text.\<close>

definition printable :: "string \<Rightarrow> bool" where
  "printable s = list_all (\<lambda>c. 32 \<le> (of_char c :: nat) \<and> (of_char c :: nat) < 127) s"

section \<open>An environment to run the code in\<close>

text \<open>The type and subtype of a media type: its text before the first semicolon.\<close>

definition media_range :: "string \<Rightarrow> string" where
  "media_range s = takeWhile (\<lambda>c. c \<noteq> CHR '';'') s"

text \<open>
  Modelled from the spec: \<open>mimeparser.best_match\<close> is not among the sources.
  \<open>simple_best_match\<close> is the negotiation of the spec for an \<open>Accept\<close> header that holds a
  single media range without parameters: \<open>*/*\<close> takes the first supported type, any
  other range the first supported type whose type and subtype are the range; without
  such a type the answer is the empty string.
\<close>

definition simple_best_match :: "string list \<Rightarrow> string \<Rightarrow> string" where
  "simple_best_match supported accept =
     (case (if accept = ''*/*'' then supported
            else filter (\<lambda>s. media_range s = accept) supported) of
        [] \<Rightarrow> []
      | s # _ \<Rightarrow> s)"

text \<open>
  Modelled from the spec: \<open>mimeparser.parse_mime_type\<close> is not among the sources.
  \<open>simple_parse_mime_type\<close> gives the type and subtype and no parameters, and fails on a
  text without a slash.
\<close>

definition simple_parse_mime_type :: "string \<Rightarrow> (string \<times> (string \<times> string) list) option" where
  "simple_parse_mime_type s =
     (if CHR ''/'' \<in> set (media_range s) then Some (media_range s, []) else None)"

text \<open>
  The rest of the sample environment: \<open>unquote\<close> as it is on a path without a percent
  sign, a file system with the single file \<open>/srv/files/a/c\<close>, no \<open>X-Sendfile\<close>, and an
  \<open>lxml\<close> that takes printable ASCII text and the tag names made of letters and
  underscores.
\<close>

definition sample_env :: env where
  "sample_env =
     \<lparr>best_match = simple_best_match,
      parse_mime_type = simple_parse_mime_type,
      unquote = (\<lambda>s. s),
      isfile = (\<lambda>p. p = ''/srv/files/a/c''),
      USE_XSENDFILE = False,
      xml_tag_ok = (\<lambda>s. s \<noteq> [] \<and> list_all (\<lambda>c. c = CHR ''_'' \<or> (97 \<le> (of_char c :: nat) \<and> (of_char c :: nat) \<le> 122)) s),
      xml_text_ok = printable,
      py_repr = (\<lambda>v. [])\<rparr>"

text \<open>A heap whose object 0 is a request with the given raw headers and whose object 1
  is a dictionary.\<close>

definition sample_heap :: "(string \<times> string) list \<Rightarrow> pydict \<Rightarrow> heap" where
  "sample_heap hs d =
     (\<lambda>a. if a = 0 then RequestObj \<lparr>headers = hs, best_response_mimetype = None, mimetype = None\<rparr>
          else if a = 1 then DictObj d else OtherObj)"

text \<open>Two handlers that declare \<open>request\<close> and \<open>user\<close> and answer with the request's
  attributes as they find them: an \<open>async def\<close> and a \<open>def\<close>.\<close>

definition sample_body ::
  "pyarg list \<Rightarrow> (string \<times> pyarg) list \<Rightarrow> heap \<Rightarrow> (string option \<times> string option) \<times> heap" where
  "sample_body args kwargs h =
     (case h 0 of
        RequestObj r \<Rightarrow> ((best_response_mimetype r, mimetype r), h)
      | _ \<Rightarrow> ((None, None), h))"

definition sample_handler :: "(string option \<times> string option) handler" where
  "sample_handler =
     \<lparr>parameters = [''request'', ''user''], iscoroutinefunction = True,
      call = async_def sample_body\<rparr>"

definition sample_sync_handler :: "(string option \<times> string option) handler" where
  "sample_sync_handler =
     \<lparr>parameters = [''request'', ''user''], iscoroutinefunction = False,
      call = sync_def sample_body\<rparr>"

text \<open>The handler of the workspace list route, an \<open>async def\<close> that declares \<open>db\<close> and
  \<open>user\<close>.\<close>

definition get_workspace_list_route :: "unit handler" where
  "get_workspace_list_route =
     \<lparr>parameters = [''db'', ''user''], iscoroutinefunction = True,
      call = async_def (\<lambda>args kwargs h. ((), h))\<rparr>"

text \<open>Whether a handler declares a parameter, with or without the leading underscore.\<close>

definition declares :: "'r handler \<Rightarrow> string \<Rightarrow> bool" where
  "declares handler name =
     (name \<in> set (parameters handler) \<or> (CHR ''_'' # name) \<in> set (parameters handler))"

text \<open>A formatter a caller may pass in \<open>extra_formats\<close>.\<close>

definition custom_formatter :: formatter where
  "custom_formatter request mimetype' status_code context = Inr (Str ''custom'')"

text \<open>\<open>sub in s\<close> for strings.\<close>

fun str_contains :: "string \<Rightarrow> string \<Rightarrow> bool" where
  "str_contains [] sub = (sub = [])"
| "str_contains (c # cs) sub = (startswith (c # cs) sub \<or> str_contains cs sub)"

section \<open>Reading JSON back\<close>

text \<open>
  What parsing a body back means: a reader of compact JSON (no insignificant white
  space, as \<open>orjson\<close> writes it) for the values \<open>pyval\<close> has.  A string runs to its closing
  quote; the escapes are the two-character ones of JSON and \<open>\u\<close> with four hex digits
  of an ASCII code point (\<open>orjson\<close> writes every other code point as it is).  An object
  is read as the list of its members, in order.  The recursion is bounded by fuel, and
  \<open>json_loads\<close> gives as much fuel as the text has characters.
\<close>

definition hex_value :: "char \<Rightarrow> nat option" where
  "hex_value c =
     (let n = (of_char c :: nat) in
      if 48 \<le> n \<and> n \<le> 57 then Some (n - 48)
      else if 97 \<le> n \<and> n \<le> 102 then Some (n - 87)
      else if 65 \<le> n \<and> n \<le> 70 then Some (n - 55)
      else None)"

definition unicode_escape :: "string \<Rightarrow> char option" where
  "unicode_escape ds =
     (case map hex_value ds of
        [Some a, Some b, Some c, Some d] \<Rightarrow>
          (let n = ((a * 16 + b) * 16 + c) * 16 + d in
           if n < 128 then Some (char_of n) else None)
      | _ \<Rightarrow> None)"

definition simple_escape :: "char \<Rightarrow> char option" where
  "simple_escape x =
     (if x = dquote then Some dquote
      else if x = backslash then Some backslash
      else if x = CHR ''/'' then Some CHR ''/''
      else if x = CHR ''b'' then Some (char_of (8::nat))
      else if x = CHR ''f'' then Some (char_of (12::nat))
      else if x = CHR ''n'' then Some (char_of (10::nat))
      else if x = CHR ''r'' then Some (char_of (13::nat))
      else if x = CHR ''t'' then Some (char_of (9::nat))
      else None)"

text \<open>The characters of a string after its opening quote, and the text after its closing
  quote.\<close>

fun parse_chars :: "string \<Rightarrow> (string \<times> string) option" where
  "parse_chars [] = None"
| "parse_chars (c # cs) =
     (if c = dquote then Some ([], cs)
      else if c = backslash then
        (case cs of
           [] \<Rightarrow> None
         | x # cs' \<Rightarrow>
             if x = CHR ''u'' then
               (case unicode_escape (take 4 cs') of
                  None \<Rightarrow> None
                | Some d \<Rightarrow>
                    (case parse_chars (drop 4 cs') of
                       None \<Rightarrow> None
                     | Some r \<Rightarrow> Some (d # fst r, snd r)))
             else
               (case simple_escape x of
                  None \<Rightarrow> None
                | Some d \<Rightarrow>
                    (case parse_chars cs' of
                       None \<Rightarrow> None
                     | Some r \<Rightarrow> Some (d # fst r, snd r))))
      else if (of_char c :: nat) < 32 then None
      else
        (case parse_chars cs of
           None \<Rightarrow> None
         | Some r \<Rightarrow> Some (c # fst r, snd r)))"

text \<open>
  \<open>parse_value\<close> reads one value; \<open>parse_elements\<close> the elements of a non-empty array
  after its bracket, up to and with the closing bracket; \<open>parse_members\<close> the members
  of a non-empty object after its brace, up to and with the closing brace.
\<close>

fun parse_value :: "nat \<Rightarrow> string \<Rightarrow> (pyval \<times> string) option"
  and parse_elements :: "nat \<Rightarrow> string \<Rightarrow> (pyval list \<times> string) option"
  and parse_members :: "nat \<Rightarrow> string \<Rightarrow> ((string \<times> pyval) list \<times> string) option" where
  "parse_value 0 s = None"
| "parse_value (Suc n) s =
     (if startswith s ''null'' then Some (PNone, drop 4 s)
      else
        (case s of
           [] \<Rightarrow> None
         | c # cs \<Rightarrow>
             if c = dquote then
               (case parse_chars cs of None \<Rightarrow> None | Some r \<Rightarrow> Some (PStr (fst r), snd r))
             else if c = CHR ''['' then
               (if startswith cs '']'' then Some (PList [], drop 1 cs)
                else (case parse_elements n cs of
                        None \<Rightarrow> None
                      | Some r \<Rightarrow> Some (PList (fst r), snd r)))
             else if c = CHR ''{'' then
               (if startswith cs ''}'' then Some (PDict [], drop 1 cs)
                else (case parse_members n cs of
                        None \<Rightarrow> None
                      | Some r \<Rightarrow> Some (PDict (fst r), snd r)))
             else None))"
| "parse_elements 0 s = None"
| "parse_elements (Suc n) s =
     (case parse_value n s of
        None \<Rightarrow> None
      | Some r \<Rightarrow>
          (case snd r of
             [] \<Rightarrow> None
           | c # cs \<Rightarrow>
               if c = CHR '','' then
                 (case parse_elements n cs of
                    None \<Rightarrow> None
                  | Some r' \<Rightarrow> Some (fst r # fst r', snd r'))
               else if c = CHR '']'' then Some ([fst r], cs)
               else None))"
| "parse_members 0 s = None"
| "parse_members (Suc n) s =
     (case s of
        [] \<Rightarrow> None
      | q # s' \<Rightarrow>
          if q \<noteq> dquote then None
          else
            (case parse_chars s' of
               None \<Rightarrow> None
             | Some k \<Rightarrow>
                 (case snd k of
                    [] \<Rightarrow> None
                  | colon # s'' \<Rightarrow>
                      if colon \<noteq> CHR '':'' then None
                      else
                        (case parse_value n s'' of
                           None \<Rightarrow> None
                         | Some r \<Rightarrow>
                             (case snd r of
                                [] \<Rightarrow> None
                              | c # cs \<Rightarrow>
                                  if c = CHR '','' then
                                    (case parse_members n cs of
                                       None \<Rightarrow> None
                                     | Some r' \<Rightarrow> Some ((fst k, fst r) # fst r', snd r'))
                                  else if c = CHR ''}'' then Some ([(fst k, fst r)], cs)
                                  else None)))))"

definition json_loads :: "string \<Rightarrow> pyval option" where
  "json_loads s =
     (case parse_value (length s) s of
        None \<Rightarrow> None
      | Some r \<Rightarrow> if snd r = [] then Some (fst r) else None)"

text \<open>Fuel that suffices to read a value back.\<close>

fun fuel :: "pyval \<Rightarrow> nat" where
  "fuel PNone = 1"
| "fuel (PStr s) = 1"
| "fuel (PList xs) = Suc (sum_list (map (\<lambda>x. Suc (fuel x)) xs))"
| "fuel (PDict kvs) = Suc (sum_list (map (\<lambda>p. Suc (fuel (snd p))) kvs))"

section \<open>Dictionaries\<close>

lemma map_of_dict_set:
  "map_of (dict_set k v d) k' = (if k' = k then Some v else map_of d k')"
  by (induction d) auto

lemma keys_dict_set: "fst ` set (dict_set k v d) = insert k (fst ` set d)"
  by (induction d) auto

lemma filter_dict_set:
  "\<forall>v'. \<not> P (k, v') \<Longrightarrow> filter P (dict_set k v d) = filter P d"
proof (induction d)
  case Nil
  then show ?case by simp
next
  case (Cons p ps)
  obtain k' v' where p: "p = (k', v')" by (cases p)
  with Cons show ?case by auto
qed

lemma context_update_lookup:
  "map_of (dict_update d [(''error_msg'', m), (''details'', x)]) k =
     (if k = ''details'' then Some x else if k = ''error_msg'' then Some m else map_of d k)"
  by (simp add: map_of_dict_set)

lemma context_update_others:
  "filter (\<lambda>p. fst p \<noteq> ''error_msg'' \<and> fst p \<noteq> ''details'')
      (dict_update d [(''error_msg'', m), (''details'', x)]) =
   filter (\<lambda>p. fst p \<noteq> ''error_msg'' \<and> fst p \<noteq> ''details'') d"
  by (simp add: filter_dict_set)

section \<open>The built-in formatters and the default error responses\<close>

lemma keys_ERROR_FORMATTERS:
  "map fst (ERROR_FORMATTERS e) =
     [''application/json; charset=utf-8'', ''application/xml; charset=utf-8'',
      ''text/plain; charset=utf-8'', []]"
  by (simp add: ERROR_FORMATTERS_def)

lemma lookup_ERROR_FORMATTERS:
  "map_of (ERROR_FORMATTERS e) ''application/json; charset=utf-8'' = Some (get_json_error_response e)"
  "map_of (ERROR_FORMATTERS e) ''application/xml; charset=utf-8'' = Some (get_xml_error_response e)"
  "map_of (ERROR_FORMATTERS e) ''text/plain; charset=utf-8'' = Some (get_plain_text_error_response e)"
  "map_of (ERROR_FORMATTERS e) [] = Some (get_plain_text_error_response e)"
  by (simp_all add: ERROR_FORMATTERS_def)

lemma resolve_default:
  assumes "negotiates e"
  shows "\<exists>ct. resolve_content_type e rh (ERROR_FORMATTERS e) = Inr ct
           \<and> ct \<in> set (map fst (ERROR_FORMATTERS e))"
proof (cases "headers_get rh ''X-Requested-With'' [] = ''XMLHttpRequest''")
  case True
  then show ?thesis
    by (simp add: resolve_content_type_def keys_ERROR_FORMATTERS)
next
  case False
  let ?ks = "[''application/json; charset=utf-8'', ''application/xml; charset=utf-8'',
      ''text/plain; charset=utf-8'']"
  let ?b = "best_match e ?ks (headers_get rh ''Accept'' ''*/*'')"
  from assms have "?b = [] \<or> ?b \<in> set ?ks"
    unfolding negotiates_def by blast
  with False show ?thesis
    by (auto simp add: resolve_content_type_def keys_ERROR_FORMATTERS)
qed

lemma json_no_details:
  "get_json_error_response e r ct sc [(''error_msg'', PStr msg), (''details'', PNone)] =
     Inr (Str (json_dumps (PDict [(''description'', PStr msg)])))"
  by (simp add: get_json_error_response_def py_str_def)

lemma xml_no_details:
  "xml_text_ok e msg \<Longrightarrow>
   get_xml_error_response e r ct sc [(''error_msg'', PStr msg), (''details'', PNone)] =
     Inr (XmlBytes (Element ''error'' None [Element ''description'' (Some msg) []]))"
  by (simp add: get_xml_error_response_def py_str_def set_text_def)

lemma plain_any_details:
  "get_plain_text_error_response e r ct sc [(''error_msg'', PStr msg), (''details'', d)] =
     Inr (Str msg)"
  by (simp add: get_plain_text_error_response_def py_str_def)

lemma build_error_response_eval:
  assumes "request_headers h request = Inr rh"
    and "resolve_content_type e rh (ERROR_FORMATTERS e) = Inr ct"
    and "map_of (ERROR_FORMATTERS e) ct = Some f"
    and "f request ct sc [(''error_msg'', PStr msg), (''details'', d)] = Inr b"
  shows "build_error_response e h request sc msg None None d None =
           (Inr (Response sc (Some b) (Some ct) []), h)"
  using assms by (simp add: build_error_response_def build_response_def set_headers_def)

lemma error_response_no_details:
  assumes "negotiates e" and "xml_text_ok e msg" and "request_headers h request = Inr rh"
  shows "\<exists>ct b. build_error_response e h request sc msg None None PNone None =
            (Inr (Response sc (Some b) (Some ct) []), h)
          \<and> (ct = ''application/json; charset=utf-8''
                \<and> b = Str (json_dumps (PDict [(''description'', PStr msg)]))
              \<or> ct = ''application/xml; charset=utf-8''
                \<and> b = XmlBytes (Element ''error'' None [Element ''description'' (Some msg) []])
              \<or> (ct = ''text/plain; charset=utf-8'' \<or> ct = []) \<and> b = Str msg)"
proof -
  from resolve_default [OF assms(1)] obtain ct where
    ct: "resolve_content_type e rh (ERROR_FORMATTERS e) = Inr ct"
      "ct \<in> set (map fst (ERROR_FORMATTERS e))" by blast
  from ct(2) consider "ct = ''application/json; charset=utf-8''"
    | "ct = ''application/xml; charset=utf-8''" | "ct = ''text/plain; charset=utf-8''" | "ct = []"
    by (auto simp add: keys_ERROR_FORMATTERS)
  then show ?thesis
  proof cases
    case 1
    with ct(1) assms(3) show ?thesis
      by (simp add: build_error_response_def build_response_def ERROR_FORMATTERS_def
          json_no_details set_headers_def)
  next
    case 2
    with ct(1) assms(2,3) show ?thesis
      by (simp add: build_error_response_def build_response_def ERROR_FORMATTERS_def
          xml_no_details set_headers_def)
  next
    case 3
    with ct(1) assms(3) show ?thesis
      by (simp add: build_error_response_def build_response_def ERROR_FORMATTERS_def
          plain_any_details set_headers_def)
  next
    case 4
    with ct(1) assms(3) show ?thesis
      by (simp add: build_error_response_def build_response_def ERROR_FORMATTERS_def
          plain_any_details set_headers_def)
  qed
qed

section \<open>The sample environment\<close>

lemma negotiates_sample_env: "negotiates sample_env"
proof -
  have "simple_best_match supported accept = [] \<or> simple_best_match supported accept \<in> set supported"
    for supported accept
  proof (cases "accept = ''*/*''")
    case True
    then show ?thesis by (cases supported) (simp_all add: simple_best_match_def)
  next
    case False
    show ?thesis
    proof (cases "filter (\<lambda>s. media_range s = accept) supported")
      case Nil
      with False show ?thesis by (simp add: simple_best_match_def)
    next
      case (Cons s rest)
      then have "s \<in> set (filter (\<lambda>s. media_range s = accept) supported)" by simp
      then have "s \<in> set supported" by simp
      with False Cons show ?thesis by (simp add: simple_best_match_def)
    qed
  qed
  then show ?thesis by (simp add: negotiates_def sample_env_def)
qed

lemma lower_header_names:
  "str_lower ''X-Requested-With'' = ''x-requested-with''"
  "str_lower ''Accept'' = ''accept''"
  "str_lower ''Content-Type'' = ''content-type''"
  by code_simp+

lemma media_range_samples:
  "media_range ''application/json; charset=utf-8'' = ''application/json''"
  "media_range ''application/xml; charset=utf-8'' = ''application/xml''"
  "media_range ''text/plain; charset=utf-8'' = ''text/plain''"
  "media_range ''text/html'' = ''text/html''"
  by (simp_all add: media_range_def)

lemma printable_not_acceptable_msg: "printable not_acceptable_msg"
  by (simp add: printable_def not_acceptable_msg_def)

section \<open>Splitting, joining and rebuilding paths\<close>

lemma str_split_nonempty: "str_split sep s \<noteq> []"
  by (induction s) (auto split: list.splits)

lemma str_split_no_sep: "p \<in> set (str_split sep s) \<Longrightarrow> sep \<notin> set p"
proof (induction s arbitrary: p)
  case Nil
  then show ?case by simp
next
  case (Cons c cs)
  show ?case
  proof (cases "c = sep")
    case True
    with Cons show ?thesis by auto
  next
    case False
    obtain q qs where q: "str_split sep cs = q # qs"
      using str_split_nonempty [of sep cs] by (cases "str_split sep cs") auto
    with False Cons.prems have "p = c # q \<or> p \<in> set qs" by simp
    with q False Cons.IH show ?thesis by auto
  qed
qed

lemma str_split_chars: "p \<in> set (str_split sep s) \<Longrightarrow> set p \<subseteq> set s"
proof (induction s arbitrary: p)
  case Nil
  then show ?case by simp
next
  case (Cons c cs)
  show ?case
  proof (cases "c = sep")
    case True
    with Cons show ?thesis by auto
  next
    case False
    obtain q qs where q: "str_split sep cs = q # qs"
      using str_split_nonempty [of sep cs] by (cases "str_split sep cs") auto
    with False Cons.prems have "p = c # q \<or> p \<in> set qs" by simp
    with q False Cons.IH [of q] Cons.IH [of p] show ?thesis by fastforce
  qed
qed

lemma str_split_single: "sep \<notin> set p \<Longrightarrow> str_split sep p = [p]"
  by (induction p) auto

lemma str_split_append:
  "str_split sep (a @ sep # b) = str_split sep a @ str_split sep b"
proof (induction a)
  case Nil
  then show ?case by simp
next
  case (Cons c cs)
  obtain q qs where q: "str_split sep cs = q # qs"
    using str_split_nonempty [of sep cs] by (cases "str_split sep cs") auto
  with Cons show ?case by auto
qed

lemma os_path_split_plain: "CHR ''/'' \<notin> set p \<Longrightarrow> snd (os_path_split p) = p"
proof -
  assume "CHR ''/'' \<notin> set p"
  then have "takeWhile (\<lambda>c. c \<noteq> CHR ''/'') (rev p) = rev p"
    by (auto simp add: takeWhile_eq_all_conv)
  then show ?thesis
    by (simp only: os_path_split_def rfind_slash_plus1_def Let_def snd_conv length_rev
        diff_self_eq_0 drop_0)
qed

lemma strip_parts_step:
  "CHR ''/'' \<notin> set part \<Longrightarrow>
   strip_parts newpath (part # parts) =
     (if part = ''.'' \<or> part = ''..'' then strip_parts newpath parts
      else strip_parts (str_replace backslash CHR ''/'' (os_path_join newpath part)) parts)"
  by (simp add: os_path_splitdrive_def os_path_split_plain Let_def)

lemma no_backslash_replace: "backslash \<notin> set (str_replace backslash CHR ''/'' s)"
  by (auto simp add: str_replace_def backslash_def)

lemma strip_parts_no_backslash:
  "backslash \<notin> set newpath \<Longrightarrow> backslash \<notin> set (strip_parts newpath parts)"
proof (induction parts arbitrary: newpath)
  case Nil
  then show ?case by simp
next
  case (Cons part parts)
  show ?case
    using Cons.IH [OF Cons.prems] Cons.IH [OF no_backslash_replace]
    by (simp add: Let_def)
qed

lemma str_replace_id: "a \<notin> set s \<Longrightarrow> str_replace a b s = s"
  by (induction s) (auto simp add: str_replace_def)

lemma startswith_slash: "startswith s ''/'' = (\<exists>t. s = CHR ''/'' # t)"
  by (cases s) (auto simp add: startswith_def)

lemma endswith_slash: "endswith s ''/'' = (\<exists>t. s = t @ ''/'')"
proof
  assume "endswith s ''/''"
  then have "1 \<le> length s" and "drop (length s - 1) s = ''/''"
    by (simp_all add: endswith_def)
  then have "s = take (length s - 1) s @ ''/''"
    by (metis append_take_drop_id)
  then show "\<exists>t. s = t @ ''/''" ..
next
  assume "\<exists>t. s = t @ ''/''"
  then show "endswith s ''/''" by (auto simp add: endswith_def)
qed

lemma join_clean:
  assumes "CHR ''/'' \<notin> set part" and "part \<noteq> ''..''"
    and "''..'' \<notin> set (str_split CHR ''/'' acc)" and "\<not> startswith acc ''/''"
  shows "''..'' \<notin> set (str_split CHR ''/'' (os_path_join acc part))
         \<and> \<not> startswith (os_path_join acc part) ''/''"
proof -
  from assms(1) have np: "\<not> startswith part ''/''"
    by (auto simp add: startswith_slash)
  from assms(1) have sp: "str_split CHR ''/'' part = [part]"
    by (rule str_split_single)
  show ?thesis
  proof (cases "acc = []")
    case True
    with np sp assms(2) show ?thesis by (simp add: os_path_join_def)
  next
    case False
    note nonempty = this
    show ?thesis
    proof (cases "endswith acc ''/''")
      case True
      then obtain t where t: "acc = t @ ''/''" by (auto simp add: endswith_slash)
      have j: "os_path_join acc part = t @ CHR ''/'' # part"
        using np True t by (simp add: os_path_join_def)
      have "str_split CHR ''/'' acc = str_split CHR ''/'' t @ [[]]"
        using str_split_append [of "CHR ''/''" t "[]"] t by simp
      with assms(3) have "''..'' \<notin> set (str_split CHR ''/'' t)" by simp
      with assms(2) sp have 1: "''..'' \<notin> set (str_split CHR ''/'' (t @ CHR ''/'' # part))"
        by (simp add: str_split_append)
      from assms(4) nonempty t have 2: "\<not> startswith (t @ CHR ''/'' # part) ''/''"
        by (cases t) (auto simp add: startswith_slash)
      from 1 2 j show ?thesis by simp
    next
      case False
      have j: "os_path_join acc part = acc @ CHR ''/'' # part"
        using np False nonempty by (simp add: os_path_join_def)
      from assms(2,3) sp have 1: "''..'' \<notin> set (str_split CHR ''/'' (acc @ CHR ''/'' # part))"
        by (simp add: str_split_append)
      from assms(4) nonempty have 2: "\<not> startswith (acc @ CHR ''/'' # part) ''/''"
        by (cases acc) (auto simp add: startswith_slash)
      from 1 2 j show ?thesis by simp
    qed
  qed
qed

lemma join_no_backslash:
  "backslash \<notin> set a \<Longrightarrow> backslash \<notin> set b \<Longrightarrow> backslash \<notin> set (os_path_join a b)"
  by (auto simp add: os_path_join_def backslash_def)

lemma strip_parts_clean:
  assumes "\<forall>p \<in> set parts. CHR ''/'' \<notin> set p \<and> backslash \<notin> set p"
    and "backslash \<notin> set acc"
    and "''..'' \<notin> set (str_split CHR ''/'' acc)" and "\<not> startswith acc ''/''"
  shows "''..'' \<notin> set (str_split CHR ''/'' (strip_parts acc parts))
         \<and> \<not> startswith (strip_parts acc parts) ''/''"
  using assms
proof (induction parts arbitrary: acc)
  case Nil
  then show ?case by simp
next
  case (Cons part parts)
  from Cons.prems(1) have part: "CHR ''/'' \<notin> set part" "backslash \<notin> set part"
    and rest: "\<forall>p \<in> set parts. CHR ''/'' \<notin> set p \<and> backslash \<notin> set p"
    by simp_all
  show ?case
  proof (cases "part = ''.'' \<or> part = ''..''")
    case True
    with part(1) have "strip_parts acc (part # parts) = strip_parts acc parts"
      by (simp add: strip_parts_step del: strip_parts.simps)
    with Cons.IH [OF rest Cons.prems(2,3,4)] show ?thesis by simp
  next
    case False
    let ?j = "os_path_join acc part"
    from part(2) Cons.prems(2) have nb: "backslash \<notin> set ?j" by (rule join_no_backslash [rotated])
    then have id: "str_replace backslash CHR ''/'' ?j = ?j" by (rule str_replace_id)
    from False part(1) have "strip_parts acc (part # parts) = strip_parts ?j parts"
      by (simp add: strip_parts_step id del: strip_parts.simps)
    moreover from False have "part \<noteq> ''..''" by simp
    from join_clean [OF part(1) this Cons.prems(3,4)]
    have "''..'' \<notin> set (str_split CHR ''/'' ?j)" and "\<not> startswith ?j ''/''" by simp_all
    from Cons.IH [OF rest nb this]
    have "''..'' \<notin> set (str_split CHR ''/'' (strip_parts ?j parts))
         \<and> \<not> startswith (strip_parts ?j parts) ''/''" .
    ultimately show ?thesis by simp
  qed
qed

lemma newpath_sanitized:
  assumes "download_newpath e file_path = [] \<or> download_path e file_path = download_newpath e file_path"
  shows "''..'' \<notin> set (str_split CHR ''/'' (download_newpath e file_path))
         \<and> \<not> startswith (download_newpath e file_path) ''/''
         \<and> backslash \<notin> set (download_newpath e file_path)"
proof -
  let ?path = "download_path e file_path"
  let ?new = "download_newpath e file_path"
  have nb: "backslash \<notin> set ?new"
    unfolding download_newpath_def by (rule strip_parts_no_backslash) simp
  from assms show ?thesis
  proof
    assume "?new = []"
    with nb show ?thesis by (simp add: startswith_def)
  next
    assume eq: "?path = ?new"
    with nb have nbp: "backslash \<notin> set ?path" by simp
    have "\<forall>p \<in> set (str_split CHR ''/'' ?path). CHR ''/'' \<notin> set p \<and> backslash \<notin> set p"
      using str_split_no_sep [of _ "CHR ''/''" ?path] str_split_chars [of _ "CHR ''/''" ?path] nbp
      by blast
    from strip_parts_clean [OF this, of "[]"] nb show ?thesis
      by (simp add: download_newpath_def startswith_def)
  qed
qed

text \<open>The paths of the spec's scenarios, run in the sample environment.\<close>

lemma sample_paths:
  "download_path sample_env ''/../../etc/passwd'' = ''etc/passwd''"
  "download_newpath sample_env ''/../../etc/passwd'' = ''etc/passwd''"
  "download_path sample_env ''a/./b/../c'' = ''a/c''"
  "download_newpath sample_env ''a/./b/../c'' = ''a/c''"
  "download_path sample_env ''../../etc/passwd'' = ''../../etc/passwd''"
  "download_newpath sample_env ''../../etc/passwd'' = ''etc/passwd''"
  "download_path sample_env ''..'' = ''..''"
  "download_newpath sample_env ''..'' = []"
  by code_simp+

lemma sample_joins:
  "os_path_join ''/srv/files'' ''etc/passwd'' = ''/srv/files/etc/passwd''"
  "os_path_join ''/srv/files'' ''a/c'' = ''/srv/files/a/c''"
  "os_path_join ''/srv/files'' [] = ''/srv/files/''"
  by code_simp+

section \<open>Serving stays inside the base directory\<close>

text \<open>
  C1.  On a POSIX host, for every requested path and base directory (the negotiator
  keeping its contract, \<open>lxml\<close> taking the message as text, and \<open>request\<close> being a
  request), \<open>build_downloadfile_response\<close> leaves the heap as it is and answers with a
  302 redirect to the rebuilt path, or with the 404 response, or it serves, directly or
  through \<open>X-Sendfile\<close>, the file at \<open>base_dir\<close> joined with the rebuilt path, which then
  is \<open>base_dir\<close> followed by a separator where needed and by the rebuilt path, and the
  rebuilt path has no \<open>..\<close> component, no leading separator, no backslash and no drive
  prefix.
\<close>

theorem download_stays_in_base_dir:
  assumes "negotiates e" and "xml_text_ok e ''Page Not Found''"
    and "request_headers h request = Inr rh"
  shows "let newpath = download_newpath e file_path;
             fullpath = os_path_join base_dir newpath;
             r = build_downloadfile_response e h request file_path base_dir
         in snd r = h
          \<and> (fst r = Inr (Response 302 None None [(''Location'', newpath)])
              \<or> (\<exists>ct b. fst r = Inr (Response 404 (Some b) (Some ct) [])
                    \<and> (ct = ''application/json; charset=utf-8''
                          \<and> b = Str (json_dumps (PDict [(''description'', PStr ''Page Not Found'')]))
                        \<or> ct = ''application/xml; charset=utf-8''
                          \<and> b = XmlBytes (Element ''error'' None
                                  [Element ''description'' (Some ''Page Not Found'') []])
                        \<or> (ct = ''text/plain; charset=utf-8'' \<or> ct = []) \<and> b = Str ''Page Not Found''))
              \<or> (fst r = Inr (FileResponse fullpath ''application/octet-stream'')
                    \<or> fst r = Inr (Response 200 None None [(''X-Sendfile'', fullpath)]))
                  \<and> isfile e fullpath
                  \<and> fullpath = (if base_dir = [] \<or> endswith base_dir ''/'' then base_dir @ newpath
                                 else base_dir @ ''/'' @ newpath)
                  \<and> ''..'' \<notin> set (str_split CHR ''/'' newpath)
                  \<and> \<not> startswith newpath ''/''
                  \<and> backslash \<notin> set newpath
                  \<and> fst (os_path_splitdrive newpath) = [])"
proof -
  define path where "path = download_path e file_path"
  define newpath where "newpath = download_newpath e file_path"
  define fullpath where "fullpath = os_path_join base_dir newpath"
  define r where "r = build_downloadfile_response e h request file_path base_dir"
  let ?thesis' = "snd r = h
          \<and> (fst r = Inr (Response 302 None None [(''Location'', newpath)])
              \<or> (\<exists>ct b. fst r = Inr (Response 404 (Some b) (Some ct) [])
                    \<and> (ct = ''application/json; charset=utf-8''
                          \<and> b = Str (json_dumps (PDict [(''description'', PStr ''Page Not Found'')]))
                        \<or> ct = ''application/xml; charset=utf-8''
                          \<and> b = XmlBytes (Element ''error'' None
                                  [Element ''description'' (Some ''Page Not Found'') []])
                        \<or> (ct = ''text/plain; charset=utf-8'' \<or> ct = []) \<and> b = Str ''Page Not Found''))
              \<or> (fst r = Inr (FileResponse fullpath ''application/octet-stream'')
                    \<or> fst r = Inr (Response 200 None None [(''X-Sendfile'', fullpath)]))
                  \<and> isfile e fullpath
                  \<and> fullpath = (if base_dir = [] \<or> endswith base_dir ''/'' then base_dir @ newpath
                                 else base_dir @ ''/'' @ newpath)
                  \<and> ''..'' \<notin> set (str_split CHR ''/'' newpath)
                  \<and> \<not> startswith newpath ''/''
                  \<and> backslash \<notin> set newpath
                  \<and> fst (os_path_splitdrive newpath) = [])"
  have r: "r = (if newpath \<noteq> [] \<and> path \<noteq> newpath
         then (Inr (Response 302 None None [(''Location'', newpath)]), h)
         else if \<not> isfile e fullpath then build_not_found_response e h request
         else if \<not> USE_XSENDFILE e
         then (Inr (FileResponse fullpath ''application/octet-stream''), h)
         else (Inr (Response 200 None None [(''X-Sendfile'', fullpath)]), h))"
    by (simp add: r_def build_downloadfile_response_def Let_def path_def newpath_def fullpath_def)
  have ?thesis'
  proof (cases "newpath \<noteq> [] \<and> path \<noteq> newpath")
    case True
    with r show ?thesis by simp
  next
    case False
    then have "download_newpath e file_path = [] \<or> download_path e file_path = download_newpath e file_path"
      by (auto simp add: path_def newpath_def)
    from newpath_sanitized [OF this]
    have clean: "''..'' \<notin> set (str_split CHR ''/'' newpath)" "\<not> startswith newpath ''/''"
      "backslash \<notin> set newpath"
      by (simp_all add: newpath_def)
    from clean(2) have full: "fullpath = (if base_dir = [] \<or> endswith base_dir ''/'' then base_dir @ newpath
                                 else base_dir @ ''/'' @ newpath)"
      by (simp add: fullpath_def os_path_join_def)
    show ?thesis
    proof (cases "isfile e fullpath")
      case nofile: False
      from error_response_no_details [OF assms, of 404] obtain ct b where
        nf: "build_not_found_response e h request = (Inr (Response 404 (Some b) (Some ct) []), h)"
        and cases: "ct = ''application/json; charset=utf-8''
                          \<and> b = Str (json_dumps (PDict [(''description'', PStr ''Page Not Found'')]))
                        \<or> ct = ''application/xml; charset=utf-8''
                          \<and> b = XmlBytes (Element ''error'' None
                                  [Element ''description'' (Some ''Page Not Found'') []])
                        \<or> (ct = ''text/plain; charset=utf-8'' \<or> ct = []) \<and> b = Str ''Page Not Found''"
        unfolding build_not_found_response_def by blast
      from r False nofile nf have "r = (Inr (Response 404 (Some b) (Some ct) []), h)" by simp
      with cases show ?thesis by auto
    next
      case True
      with r False have "snd r = h" and
        "fst r = Inr (FileResponse fullpath ''application/octet-stream'')
          \<or> fst r = Inr (Response 200 None None [(''X-Sendfile'', fullpath)])"
        by auto
      with True clean full show ?thesis by (simp add: os_path_splitdrive_def)
    qed
  qed
  then show ?thesis
    unfolding Let_def fullpath_def newpath_def r_def .
qed

text \<open>\<open>/../../etc/passwd\<close> is looked up inside the base directory and not found;
  \<open>a/./b/../c\<close> is served from it.\<close>

theorem download_stays_in_base_dir_witness:
  "negotiates sample_env \<and> xml_text_ok sample_env ''Page Not Found''
   \<and> request_headers (sample_heap [(''accept'', ''text/plain'')] []) (ArgRef 0) =
       Inr [(''accept'', ''text/plain'')]
   \<and> build_downloadfile_response sample_env (sample_heap [(''accept'', ''text/plain'')] [])
        (ArgRef 0) ''/../../etc/passwd'' ''/srv/files'' =
      (Inr (Response 404 (Some (Str ''Page Not Found'')) (Some ''text/plain; charset=utf-8'') []),
       sample_heap [(''accept'', ''text/plain'')] [])
   \<and> build_downloadfile_response sample_env (sample_heap [(''accept'', ''text/plain'')] [])
        (ArgRef 0) ''a/./b/../c'' ''/srv/files'' =
      (Inr (FileResponse ''/srv/files/a/c'' ''application/octet-stream''),
       sample_heap [(''accept'', ''text/plain'')] [])"
proof -
  let ?hs = "[(''accept'', ''text/plain'')]"
  let ?h = "sample_heap ?hs []"
  have tx: "xml_text_ok sample_env ''Page Not Found''"
    by (simp add: sample_env_def printable_def)
  have rh: "request_headers ?h (ArgRef 0) = Inr ?hs"
    by (simp add: request_headers_def sample_heap_def)
  have ct: "resolve_content_type sample_env ?hs (ERROR_FORMATTERS sample_env) =
      Inr ''text/plain; charset=utf-8''"
    by (simp add: resolve_content_type_def headers_get_def headers_lookup_def lower_header_names
        ERROR_FORMATTERS_def sample_env_def simple_best_match_def media_range_samples)
  have nf: "build_not_found_response sample_env ?h (ArgRef 0) =
      (Inr (Response 404 (Some (Str ''Page Not Found'')) (Some ''text/plain; charset=utf-8'') []), ?h)"
    unfolding build_not_found_response_def
    by (rule build_error_response_eval [OF rh ct lookup_ERROR_FORMATTERS(3) plain_any_details])
  have files: "\<not> isfile sample_env ''/srv/files/etc/passwd''" "isfile sample_env ''/srv/files/a/c''"
    "\<not> USE_XSENDFILE sample_env"
    by (simp_all add: sample_env_def)
  have f1: "fst (build_downloadfile_response sample_env ?h (ArgRef 0) ''/../../etc/passwd'' ''/srv/files'') =
      Inr (Response 404 (Some (Str ''Page Not Found'')) (Some ''text/plain; charset=utf-8'') [])"
    by (simp add: build_downloadfile_response_def sample_paths sample_joins files nf)
  have f2: "fst (build_downloadfile_response sample_env ?h (ArgRef 0) ''a/./b/../c'' ''/srv/files'') =
      Inr (FileResponse ''/srv/files/a/c'' ''application/octet-stream'')"
    by (simp add: build_downloadfile_response_def sample_paths sample_joins files)
  from download_stays_in_base_dir [OF negotiates_sample_env tx rh,
      where file_path = "''/../../etc/passwd''" and base_dir = "''/srv/files''", unfolded Let_def]
  have s1: "snd (build_downloadfile_response sample_env ?h (ArgRef 0) ''/../../etc/passwd'' ''/srv/files'') = ?h"
    by (rule conjunct1)
  from download_stays_in_base_dir [OF negotiates_sample_env tx rh,
      where file_path = "''a/./b/../c''" and base_dir = "''/srv/files''", unfolded Let_def]
  have s2: "snd (build_downloadfile_response sample_env ?h (ArgRef 0) ''a/./b/../c'' ''/srv/files'') = ?h"
    by (rule conjunct1)
  from f1 s1 have r1: "build_downloadfile_response sample_env ?h (ArgRef 0) ''/../../etc/passwd'' ''/srv/files'' =
      (Inr (Response 404 (Some (Str ''Page Not Found'')) (Some ''text/plain; charset=utf-8'') []), ?h)"
    by (simp add: prod_eq_iff)
  from f2 s2 have r2: "build_downloadfile_response sample_env ?h (ArgRef 0) ''a/./b/../c'' ''/srv/files'' =
      (Inr (FileResponse ''/srv/files/a/c'' ''application/octet-stream''), ?h)"
    by (simp add: prod_eq_iff)
  from negotiates_sample_env tx rh r1 r2 show ?thesis by simp
qed

section \<open>Caller-supplied formatters\<close>

lemma merged_lookup:
  "map_of (dict_update ef (ERROR_FORMATTERS e)) k =
     (case map_of (ERROR_FORMATTERS e) k of Some f \<Rightarrow> Some f | None \<Rightarrow> map_of ef k)"
  by (simp add: ERROR_FORMATTERS_def map_of_dict_set)

lemma merged_has_fallback: "[] \<in> fst ` set (dict_update ef (ERROR_FORMATTERS e))"
  by (simp add: ERROR_FORMATTERS_def keys_dict_set)

lemma resolve_merged:
  "\<exists>ct. resolve_content_type e rh (dict_update ef (ERROR_FORMATTERS e)) = Inr ct"
  by (simp add: resolve_content_type_def Let_def merged_has_fallback del: dict_update.simps)

text \<open>
  C2, as amended.  With \<open>extra_formats\<close> given, the formatter table is a copy of
  \<open>extra_formats\<close> updated with the built-in \<open>ERROR_FORMATTERS\<close>: a content type is
  looked up among the built-in formatters first and in \<open>extra_formats\<close> only when no
  built-in formatter has that key.  So for a key that both tables have, the built-in
  render function is the one applied, and a caller-supplied function is applied only to
  a content type the built-in table lacks.
\<close>

theorem builtin_formatters_take_precedence:
  assumes "request_headers h request = Inr rh"
  shows "let table = dict_update ef (ERROR_FORMATTERS e);
             ctx = [(''error_msg'', PStr error_msg), (''details'', details)];
             r = fst (build_error_response e h request status_code error_msg (Some ef) hdrs details None)
         in (\<forall>k. map_of table k =
                  (case map_of (ERROR_FORMATTERS e) k of Some f \<Rightarrow> Some f | None \<Rightarrow> map_of ef k))
          \<and> r = build_response e h request status_code ctx table hdrs
          \<and> (\<exists>ct. resolve_content_type e rh table = Inr ct
                \<and> r = (case (case map_of (ERROR_FORMATTERS e) ct of
                                Some f \<Rightarrow> Some f
                              | None \<Rightarrow> map_of ef ct) of
                          None \<Rightarrow> Inl (Exception ''No suitable formatter found'')
                        | Some f \<Rightarrow>
                            (case f request ct status_code ctx of
                               Inl x \<Rightarrow> Inl x
                             | Inr b \<Rightarrow> Inr (Response status_code (Some b) (Some ct) (set_headers hdrs)))))"
proof -
  define table where "table = dict_update ef (ERROR_FORMATTERS e)"
  define ctx where "ctx = [(''error_msg'', PStr error_msg), (''details'', details)]"
  define r where "r = fst (build_error_response e h request status_code error_msg (Some ef) hdrs details None)"
  have 1: "\<forall>k. map_of table k =
                  (case map_of (ERROR_FORMATTERS e) k of Some f \<Rightarrow> Some f | None \<Rightarrow> map_of ef k)"
    by (simp add: table_def merged_lookup)
  have 2: "r = build_response e h request status_code ctx table hdrs"
    by (simp add: r_def build_error_response_def table_def ctx_def)
  obtain ct where ct: "resolve_content_type e rh table = Inr ct"
    using resolve_merged [of e rh ef] unfolding table_def by blast
  have 3: "r = (case (case map_of (ERROR_FORMATTERS e) ct of
                                Some f \<Rightarrow> Some f
                              | None \<Rightarrow> map_of ef ct) of
                          None \<Rightarrow> Inl (Exception ''No suitable formatter found'')
                        | Some f \<Rightarrow>
                            (case f request ct status_code ctx of
                               Inl x \<Rightarrow> Inl x
                             | Inr b \<Rightarrow> Inr (Response status_code (Some b) (Some ct) (set_headers hdrs))))"
    unfolding 2 build_response_def using assms ct 1 by simp
  from 1 2 3 ct show ?thesis
    unfolding Let_def table_def [symmetric] ctx_def [symmetric] r_def [symmetric] by blast
qed

text \<open>A caller-supplied formatter for \<open>text/csv\<close>, a type the built-in table lacks, is
  applied.\<close>

theorem builtin_formatters_take_precedence_witness:
  "request_headers (sample_heap [(''accept'', ''text/csv'')] []) (ArgRef 0) = Inr [(''accept'', ''text/csv'')]
   \<and> fst (build_error_response sample_env (sample_heap [(''accept'', ''text/csv'')] []) (ArgRef 0)
        400 ''bad'' (Some [(''text/csv'', custom_formatter)]) None PNone None) =
      Inr (Response 400 (Some (Str ''custom'')) (Some ''text/csv'') [])"
proof -
  have rh: "request_headers (sample_heap [(''accept'', ''text/csv'')] []) (ArgRef 0) = Inr [(''accept'', ''text/csv'')]"
    by (simp add: request_headers_def sample_heap_def)
  have ct: "resolve_content_type sample_env [(''accept'', ''text/csv'')]
      (dict_update [(''text/csv'', custom_formatter)] (ERROR_FORMATTERS sample_env)) = Inr ''text/csv''"
    by (simp add: resolve_content_type_def headers_get_def headers_lookup_def lower_header_names
        ERROR_FORMATTERS_def sample_env_def simple_best_match_def media_range_def)
  from builtin_formatters_take_precedence [OF rh, where e = sample_env
      and ef = "[(''text/csv'', custom_formatter)]" and status_code = 400 and error_msg = "''bad''"
      and hdrs = None and details = PNone, unfolded Let_def ct, THEN conjunct2, THEN conjunct2]
  have "fst (build_error_response sample_env (sample_heap [(''accept'', ''text/csv'')] []) (ArgRef 0)
        400 ''bad'' (Some [(''text/csv'', custom_formatter)]) None PNone None) =
      Inr (Response 400 (Some (Str ''custom'')) (Some ''text/csv'') [])"
    by (simp add: ERROR_FORMATTERS_def custom_formatter_def set_headers_def)
  with rh show ?thesis by simp
qed

text \<open>
  C2 as stated fails: a caller-supplied formatter under the built-in JSON key is not
  applied; the body is the built-in JSON rendering.
\<close>

theorem caller_formatter_overridden:
  "fst (build_error_response sample_env (sample_heap [(''x-requested-with'', ''XMLHttpRequest'')] [])
     (ArgRef 0) 400 ''bad'' (Some [(''application/json; charset=utf-8'', custom_formatter)])
     None PNone None) =
     Inr (Response 400 (Some (Str (json_dumps (PDict [(''description'', PStr ''bad'')]))))
       (Some ''application/json; charset=utf-8'') [])
   \<and> custom_formatter (ArgRef 0) ''application/json; charset=utf-8'' 400
       [(''error_msg'', PStr ''bad''), (''details'', PNone)] = Inr (Str ''custom'')
   \<and> json_dumps (PDict [(''description'', PStr ''bad'')]) \<noteq> ''custom''"
  by (simp add: build_error_response_def build_response_def request_headers_def sample_heap_def
      resolve_content_type_def headers_get_def headers_lookup_def lower_header_names
      ERROR_FORMATTERS_def get_json_error_response_def py_str_def set_headers_def
      custom_formatter_def)

section \<open>Rebuilding the path and redirecting\<close>























section \<open>The 406 response of produces\<close>

lemma list_elements_strings:
  "list_all (xml_text_ok e) ms \<Longrightarrow>
   list_elements e (map PStr ms) = Inr (map (\<lambda>m. Element ''element'' (Some m) []) ms)"
  by (induction ms) (simp_all add: set_text_def)

lemma json_supported:
  "get_json_error_response e r ct sc
     [(''error_msg'', PStr msg), (''details'', PDict [(''supported_mime_types'', PList (map PStr ms))])] =
   Inr (Str (json_dumps (PDict [(''description'', PStr msg),
          (''details'', PDict [(''supported_mime_types'', PList (map PStr ms))])])))"
  by (simp add: get_json_error_response_def py_str_def)

lemma xml_supported:
  assumes "xml_text_ok e msg" and "xml_tag_ok e ''supported_mime_types''"
    and "list_all (xml_text_ok e) ms"
  shows "get_xml_error_response e r ct sc
     [(''error_msg'', PStr msg), (''details'', PDict [(''supported_mime_types'', PList (map PStr ms))])] =
   Inr (XmlBytes (Element ''error'' None
     [Element ''description'' (Some msg) [],
      Element ''details'' None
        [Element ''supported_mime_types'' None (map (\<lambda>m. Element ''element'' (Some m) []) ms)]]))"
  using assms
  by (simp add: get_xml_error_response_def py_str_def set_text_def details_child_def
      key_element_def list_elements_strings)

lemma error_response_supported:
  assumes "negotiates e" and "xml_text_ok e msg" and "xml_tag_ok e ''supported_mime_types''"
    and "list_all (xml_text_ok e) ms" and "request_headers h request = Inr rh"
  shows "\<exists>ct b. build_error_response e h request sc msg None None
              (PDict [(''supported_mime_types'', PList (map PStr ms))]) None =
            (Inr (Response sc (Some b) (Some ct) []), h)
          \<and> (ct = ''application/json; charset=utf-8''
                \<and> b = Str (json_dumps (PDict [(''description'', PStr msg),
                        (''details'', PDict [(''supported_mime_types'', PList (map PStr ms))])]))
              \<or> ct = ''application/xml; charset=utf-8''
                \<and> b = XmlBytes (Element ''error'' None
                        [Element ''description'' (Some msg) [],
                         Element ''details'' None
                           [Element ''supported_mime_types'' None
                              (map (\<lambda>m. Element ''element'' (Some m) []) ms)]])
              \<or> (ct = ''text/plain; charset=utf-8'' \<or> ct = []) \<and> b = Str msg)"
proof -
  from resolve_default [OF assms(1)] obtain ct where
    ct: "resolve_content_type e rh (ERROR_FORMATTERS e) = Inr ct"
      "ct \<in> set (map fst (ERROR_FORMATTERS e))" by blast
  from ct(2) consider "ct = ''application/json; charset=utf-8''"
    | "ct = ''application/xml; charset=utf-8''" | "ct = ''text/plain; charset=utf-8''" | "ct = []"
    by (auto simp add: keys_ERROR_FORMATTERS)
  then show ?thesis
  proof cases
    case 1
    with ct(1) assms(5) show ?thesis
      by (simp add: build_error_response_def build_response_def ERROR_FORMATTERS_def
          json_supported set_headers_def)
  next
    case 2
    with ct(1) assms(5) xml_supported [OF assms(2,3,4)] show ?thesis
      by (simp add: build_error_response_def build_response_def ERROR_FORMATTERS_def
          set_headers_def)
  next
    case 3
    with ct(1) assms(5) show ?thesis
      by (simp add: build_error_response_def build_response_def ERROR_FORMATTERS_def
          plain_any_details set_headers_def)
  next
    case 4
    with ct(1) assms(5) show ?thesis
      by (simp add: build_error_response_def build_response_def ERROR_FORMATTERS_def
          plain_any_details set_headers_def)
  qed
qed

text \<open>
  C4, as amended.  When the negotiator finds none of \<open>mime_types\<close> acceptable (and keeps
  its contract, \<open>lxml\<close> takes the message and the listed types as text and
  \<open>supported_mime_types\<close> as a tag, and the keyword arguments hold the request), the
  wrapper of \<open>produces\<close> answers with a 406 response, whatever the handler is (it is not
  invoked), after setting \<open>best_response_mimetype\<close> of the request to the empty string.
  The JSON body carries \<open>details\<close> with \<open>supported_mime_types\<close> listing \<open>mime_types\<close>, the
  XML body a \<open>details\<close> element whose \<open>supported_mime_types\<close> child has one \<open>element\<close>
  per type; the plain-text body is the message alone.
\<close>

theorem produces_guard:
  assumes "negotiates e" and "xml_text_ok e not_acceptable_msg"
    and "xml_tag_ok e ''supported_mime_types''" and "list_all (xml_text_ok e) mime_types"
    and "kwargs_get kwargs ''request'' (kwargs_get kwargs ''_request'' ArgNone) = ArgRef a"
    and "h a = RequestObj req"
    and "best_match e mime_types (headers_get (headers req) ''Accept'' ''*/*'') = []"
  shows "\<exists>ct b. (\<forall>handler' :: 'r handler. produces_wrapper e mime_types handler' args kwargs h =
             (Responded (Response 406 (Some b) (Some ct) []),
              h(a := RequestObj (req\<lparr>best_response_mimetype := Some []\<rparr>))))
          \<and> (ct = ''application/json; charset=utf-8''
                \<and> b = Str (json_dumps (PDict [(''description'', PStr not_acceptable_msg),
                        (''details'', PDict [(''supported_mime_types'', PList (map PStr mime_types))])]))
              \<or> ct = ''application/xml; charset=utf-8''
                \<and> b = XmlBytes (Element ''error'' None
                        [Element ''description'' (Some not_acceptable_msg) [],
                         Element ''details'' None
                           [Element ''supported_mime_types'' None
                              (map (\<lambda>m. Element ''element'' (Some m) []) mime_types)]])
              \<or> (ct = ''text/plain; charset=utf-8'' \<or> ct = []) \<and> b = Str not_acceptable_msg)"
proof -
  let ?request = "kwargs_get kwargs ''request'' (kwargs_get kwargs ''_request'' ArgNone)"
  define h' where "h' = h(a := RequestObj (req\<lparr>best_response_mimetype := Some []\<rparr>))"
  have rh: "request_headers h ?request = Inr (headers req)"
    using assms(5,6) by (simp add: request_headers_def)
  have sb: "set_best_response_mimetype h ?request [] = Inr h'"
    using assms(5,6) by (simp add: set_best_response_mimetype_def h'_def)
  have rh': "request_headers h' ?request = Inr (headers req)"
    using assms(5) by (simp add: request_headers_def h'_def)
  from error_response_supported [OF assms(1,2,3,4) rh', of 406] obtain ct b where
    r: "build_error_response e h' ?request 406 not_acceptable_msg None None
          (PDict [(''supported_mime_types'', PList (map PStr mime_types))]) None =
        (Inr (Response 406 (Some b) (Some ct) []), h')"
    and cases: "ct = ''application/json; charset=utf-8''
                \<and> b = Str (json_dumps (PDict [(''description'', PStr not_acceptable_msg),
                        (''details'', PDict [(''supported_mime_types'', PList (map PStr mime_types))])]))
              \<or> ct = ''application/xml; charset=utf-8''
                \<and> b = XmlBytes (Element ''error'' None
                        [Element ''description'' (Some not_acceptable_msg) [],
                         Element ''details'' None
                           [Element ''supported_mime_types'' None
                              (map (\<lambda>m. Element ''element'' (Some m) []) mime_types)]])
              \<or> (ct = ''text/plain; charset=utf-8'' \<or> ct = []) \<and> b = Str not_acceptable_msg"
    by blast
  from rh sb r assms(7)
  have "\<forall>handler' :: 'r handler. produces_wrapper e mime_types handler' args kwargs h =
             (Responded (Response 406 (Some b) (Some ct) []), h')"
    by (simp add: produces_wrapper_def respond_def Let_def)
  with cases show ?thesis unfolding h'_def by blast
qed

text \<open>The scenario of the spec: \<open>produces(["text/html"])\<close> against
  \<open>Accept: application/json\<close>.\<close>

theorem produces_guard_witness:
  "negotiates sample_env \<and> xml_text_ok sample_env not_acceptable_msg
   \<and> xml_tag_ok sample_env ''supported_mime_types''
   \<and> list_all (xml_text_ok sample_env) [''text/html'']
   \<and> best_match sample_env [''text/html''] ''application/json'' = []
   \<and> produces_wrapper sample_env [''text/html''] sample_handler [] [(''request'', ArgRef 0)]
        (sample_heap [(''accept'', ''application/json'')] []) =
      (Responded (Response 406
         (Some (Str (json_dumps (PDict [(''description'', PStr not_acceptable_msg),
            (''details'', PDict [(''supported_mime_types'', PList [PStr ''text/html''])])]))))
         (Some ''application/json; charset=utf-8'') []),
       (sample_heap [(''accept'', ''application/json'')] [])
         (0 := RequestObj \<lparr>headers = [(''accept'', ''application/json'')],
                best_response_mimetype = Some [], mimetype = None\<rparr>))"
proof -
  let ?hs = "[(''accept'', ''application/json'')]"
  have tx: "xml_text_ok sample_env not_acceptable_msg"
    by (simp add: sample_env_def printable_not_acceptable_msg)
  have tg: "xml_tag_ok sample_env ''supported_mime_types''"
    by (simp add: sample_env_def)
  have ms: "list_all (xml_text_ok sample_env) [''text/html'']"
    by (simp add: sample_env_def printable_def)
  have rq: "kwargs_get [(''request'', ArgRef 0)] ''request''
      (kwargs_get [(''request'', ArgRef 0)] ''_request'' ArgNone) = ArgRef 0"
    by (simp add: kwargs_get_def)
  have h0: "sample_heap ?hs [] 0 =
      RequestObj \<lparr>headers = ?hs, best_response_mimetype = None, mimetype = None\<rparr>"
    by (simp add: sample_heap_def)
  have bm: "best_match sample_env [''text/html''] ''application/json'' = []"
    by (simp add: sample_env_def simple_best_match_def media_range_samples)
  have bm': "best_match sample_env [''text/html'']
      (headers_get (headers \<lparr>headers = ?hs, best_response_mimetype = None, mimetype = None\<rparr>)
         ''Accept'' ''*/*'') = []"
    by (simp add: headers_get_def headers_lookup_def lower_header_names bm)
  have rh': "request_headers ((sample_heap ?hs [])
         (0 := RequestObj \<lparr>headers = ?hs, best_response_mimetype = Some [], mimetype = None\<rparr>))
       (ArgRef 0) = Inr ?hs"
    by (simp add: request_headers_def)
  have ct: "resolve_content_type sample_env ?hs (ERROR_FORMATTERS sample_env) =
      Inr ''application/json; charset=utf-8''"
    by (simp add: resolve_content_type_def headers_get_def headers_lookup_def lower_header_names
        ERROR_FORMATTERS_def sample_env_def simple_best_match_def media_range_samples)
  have ber: "build_error_response sample_env ((sample_heap ?hs [])
         (0 := RequestObj \<lparr>headers = ?hs, best_response_mimetype = Some [], mimetype = None\<rparr>))
       (ArgRef 0) 406 not_acceptable_msg None None
       (PDict [(''supported_mime_types'', PList [PStr ''text/html''])]) None =
     (Inr (Response 406
         (Some (Str (json_dumps (PDict [(''description'', PStr not_acceptable_msg),
            (''details'', PDict [(''supported_mime_types'', PList [PStr ''text/html''])])]))))
         (Some ''application/json; charset=utf-8'') []),
      (sample_heap ?hs [])
         (0 := RequestObj \<lparr>headers = ?hs, best_response_mimetype = Some [], mimetype = None\<rparr>))"
    using build_error_response_eval [OF rh' ct lookup_ERROR_FORMATTERS(1)
        json_supported [where ms = "[''text/html'']", unfolded list.map]]
    by (simp del: json_dumps.simps)
  from produces_guard [where h = "sample_heap ?hs []" and a = 0
      and args = "[]" and mime_types = "[''text/html'']" and kwargs = "[(''request'', ArgRef 0)]",
      OF negotiates_sample_env tx tg ms rq h0 bm']
  obtain ct b where
    all: "\<forall>handler' :: (string option \<times> string option) handler.
        produces_wrapper sample_env [''text/html''] handler' [] [(''request'', ArgRef 0)]
          (sample_heap ?hs []) =
        (Responded (Response 406 (Some b) (Some ct) []),
         (sample_heap ?hs [])
           (0 := RequestObj (\<lparr>headers = ?hs, best_response_mimetype = None, mimetype = None\<rparr>
                  \<lparr>best_response_mimetype := Some []\<rparr>)))"
    by blast
  have ev: "produces_wrapper sample_env [''text/html''] sample_handler [] [(''request'', ArgRef 0)]
        (sample_heap ?hs []) =
      (Responded (Response 406
         (Some (Str (json_dumps (PDict [(''description'', PStr not_acceptable_msg),
            (''details'', PDict [(''supported_mime_types'', PList [PStr ''text/html''])])]))))
         (Some ''application/json; charset=utf-8'') []),
       (sample_heap ?hs [])
         (0 := RequestObj \<lparr>headers = ?hs, best_response_mimetype = Some [], mimetype = None\<rparr>))"
    using bm' [unfolded request.simps]
    by (simp add: produces_wrapper_def rq request_headers_def h0 set_best_response_mimetype_def
        ber respond_def Let_def del: json_dumps.simps)
  from all ev have "b = Str (json_dumps (PDict [(''description'', PStr not_acceptable_msg),
            (''details'', PDict [(''supported_mime_types'', PList [PStr ''text/html''])])]))
      \<and> ct = ''application/json; charset=utf-8''"
    by (simp del: json_dumps.simps)
  with all have "produces_wrapper sample_env [''text/html''] sample_handler [] [(''request'', ArgRef 0)]
        (sample_heap ?hs []) =
      (Responded (Response 406
         (Some (Str (json_dumps (PDict [(''description'', PStr not_acceptable_msg),
            (''details'', PDict [(''supported_mime_types'', PList [PStr ''text/html''])])]))))
         (Some ''application/json; charset=utf-8'') []),
       (sample_heap ?hs [])
         (0 := RequestObj \<lparr>headers = ?hs, best_response_mimetype = Some [], mimetype = None\<rparr>))"
    by (simp del: json_dumps.simps)
  with negotiates_sample_env tx tg ms bm show ?thesis by (simp del: json_dumps.simps)
qed

text \<open>
  C4 as stated fails for the plain-text rendering: against \<open>Accept: text/plain\<close> the body
  of the 406 response is the message, in which \<open>supported_mime_types\<close> does not occur.
\<close>

theorem plain_text_406_names_no_types:
  "produces_wrapper sample_env [''text/html''] sample_handler [] [(''request'', ArgRef 0)]
        (sample_heap [(''accept'', ''text/plain'')] []) =
      (Responded (Response 406 (Some (Str not_acceptable_msg))
         (Some ''text/plain; charset=utf-8'') []),
       (sample_heap [(''accept'', ''text/plain'')] [])
         (0 := RequestObj \<lparr>headers = [(''accept'', ''text/plain'')],
                best_response_mimetype = Some [], mimetype = None\<rparr>))
   \<and> \<not> str_contains not_acceptable_msg ''supported_mime_types''"
proof -
  let ?hs = "[(''accept'', ''text/plain'')]"
  have rq: "kwargs_get [(''request'', ArgRef 0)] ''request''
      (kwargs_get [(''request'', ArgRef 0)] ''_request'' ArgNone) = ArgRef 0"
    by (simp add: kwargs_get_def)
  have h0: "sample_heap ?hs [] 0 =
      RequestObj \<lparr>headers = ?hs, best_response_mimetype = None, mimetype = None\<rparr>"
    by (simp add: sample_heap_def)
  have bm': "best_match sample_env [''text/html''] (headers_get ?hs ''Accept'' ''*/*'') = []"
    by (simp add: headers_get_def headers_lookup_def lower_header_names
        sample_env_def simple_best_match_def media_range_samples)
  have rh': "request_headers ((sample_heap ?hs [])
         (0 := RequestObj \<lparr>headers = ?hs, best_response_mimetype = Some [], mimetype = None\<rparr>))
       (ArgRef 0) = Inr ?hs"
    by (simp add: request_headers_def)
  have ct: "resolve_content_type sample_env ?hs (ERROR_FORMATTERS sample_env) =
      Inr ''text/plain; charset=utf-8''"
    by (simp add: resolve_content_type_def headers_get_def headers_lookup_def lower_header_names
        ERROR_FORMATTERS_def sample_env_def simple_best_match_def media_range_samples)
  have ber: "build_error_response sample_env ((sample_heap ?hs [])
         (0 := RequestObj \<lparr>headers = ?hs, best_response_mimetype = Some [], mimetype = None\<rparr>))
       (ArgRef 0) 406 not_acceptable_msg None None
       (PDict [(''supported_mime_types'', PList [PStr ''text/html''])]) None =
     (Inr (Response 406 (Some (Str not_acceptable_msg)) (Some ''text/plain; charset=utf-8'') []),
      (sample_heap ?hs [])
         (0 := RequestObj \<lparr>headers = ?hs, best_response_mimetype = Some [], mimetype = None\<rparr>))"
    using build_error_response_eval [OF rh' ct lookup_ERROR_FORMATTERS(3) plain_any_details]
    by simp
  have ev: "produces_wrapper sample_env [''text/html''] sample_handler [] [(''request'', ArgRef 0)]
        (sample_heap ?hs []) =
      (Responded (Response 406 (Some (Str not_acceptable_msg))
         (Some ''text/plain; charset=utf-8'') []),
       (sample_heap ?hs [])
         (0 := RequestObj \<lparr>headers = ?hs, best_response_mimetype = Some [], mimetype = None\<rparr>))"
    using bm'
    by (simp add: produces_wrapper_def rq request_headers_def h0 set_best_response_mimetype_def
        ber respond_def Let_def)
  have nc: "\<not> str_contains not_acceptable_msg ''supported_mime_types''"
    by (simp add: not_acceptable_msg_def startswith_def)
  from ev nc show ?thesis by simp
qed

section \<open>Awaiting and calling the wrapped handler\<close>

lemma delegate_awaits:
  "iscoroutinefunction handler \<Longrightarrow> call handler args kwargs h = (Coroutine body, h1) \<Longrightarrow>
     delegate handler args kwargs h = (Delegated (Returned (fst (body h1))), snd (body h1))"
  by (simp add: delegate_def py_await_def)

lemma delegate_not_awaitable:
  "iscoroutinefunction handler \<Longrightarrow> call handler args kwargs h = (Returned r, h1) \<Longrightarrow>
     delegate handler args kwargs h = (Raised TypeError, h1)"
  by (simp add: delegate_def py_await_def)

lemma delegate_calls:
  "\<not> iscoroutinefunction handler \<Longrightarrow>
     delegate handler args kwargs h =
       (Delegated (fst (call handler args kwargs h)), snd (call handler args kwargs h))"
  by (simp add: delegate_def)

lemma await_async_def:
  "py_await (async_def body args kwargs h) = (Inr (fst (body args kwargs h)), snd (body args kwargs h))"
  by (simp add: py_await_def async_def_def)

section \<open>The 415 response of consumes\<close>

text \<open>
  C5.  Under the same conditions the wrapper of \<open>consumes\<close> takes the content type of
  the request without its parameters (the empty string when the header is missing or
  does not parse) and sets it as the \<open>mimetype\<close> of the request.  If it is one of
  \<open>mime_types\<close> the handler is called on the heap that holds the attribute: the
  coroutine of a coroutine function is awaited and its result returned with the heap
  it leaves (a call that gives back no coroutine cannot be awaited), and what a
  synchronous handler gives back is returned as it is.  If not, the answer is a 415
  response whose body is the message \<open>Unsupported request media type\<close> in the
  negotiated rendering, whatever the handler is (the handler is not invoked).
\<close>

theorem consumes_guard:
  assumes "negotiates e" and "xml_text_ok e ''Unsupported request media type''"
    and "kwargs_get kwargs ''request'' (kwargs_get kwargs ''_request'' ArgNone) = ArgRef a"
    and "h a = RequestObj req"
  shows "let content_type =
               (case headers_lookup (headers req) ''Content-Type'' of
                  None \<Rightarrow> []
                | Some v \<Rightarrow> (case parse_mime_type e v of None \<Rightarrow> [] | Some r \<Rightarrow> fst r));
             h' = h(a := RequestObj (req\<lparr>mimetype := Some content_type\<rparr>))
         in if content_type \<in> set mime_types
            then (iscoroutinefunction handler \<and> call handler args kwargs h' = (Coroutine body, h1) \<longrightarrow>
                    consumes_wrapper e mime_types (handler :: 'r handler) args kwargs h =
                      (Delegated (Returned (fst (body h1))), snd (body h1)))
               \<and> (iscoroutinefunction handler \<and> call handler args kwargs h' = (Returned x, h1) \<longrightarrow>
                    consumes_wrapper e mime_types handler args kwargs h = (Raised TypeError, h1))
               \<and> (\<not> iscoroutinefunction handler \<longrightarrow>
                    consumes_wrapper e mime_types handler args kwargs h =
                      (Delegated (fst (call handler args kwargs h')), snd (call handler args kwargs h')))
            else \<exists>ct b. (\<forall>handler' :: 'r handler. consumes_wrapper e mime_types handler' args kwargs h =
                     (Responded (Response 415 (Some b) (Some ct) []), h'))
                 \<and> (ct = ''application/json; charset=utf-8''
                       \<and> b = Str (json_dumps (PDict [(''description'', PStr ''Unsupported request media type'')]))
                     \<or> ct = ''application/xml; charset=utf-8''
                       \<and> b = XmlBytes (Element ''error'' None
                               [Element ''description'' (Some ''Unsupported request media type'') []])
                     \<or> (ct = ''text/plain; charset=utf-8'' \<or> ct = [])
                       \<and> b = Str ''Unsupported request media type'')"
proof -
  define content_type where "content_type =
               (case headers_lookup (headers req) ''Content-Type'' of
                  None \<Rightarrow> []
                | Some v \<Rightarrow> (case parse_mime_type e v of None \<Rightarrow> [] | Some r \<Rightarrow> fst r))"
  define h' where "h' = h(a := RequestObj (req\<lparr>mimetype := Some content_type\<rparr>))"
  let ?request = "kwargs_get kwargs ''request'' (kwargs_get kwargs ''_request'' ArgNone)"
  have gct: "\<exists>ps. get_content_type e h ?request = Inr (content_type, ps)"
    using assms(3,4)
    by (auto simp add: get_content_type_def request_headers_def content_type_def
        split: option.splits)
  have sm: "set_mimetype h ?request content_type = Inr h'"
    using assms(3,4) by (simp add: set_mimetype_def h'_def)
  have rh': "request_headers h' ?request = Inr (headers req)"
    using assms(3) by (simp add: request_headers_def h'_def)
  show ?thesis
  proof (cases "content_type \<in> set mime_types")
    case True
    with gct sm have d: "consumes_wrapper e mime_types handler args kwargs h =
        delegate handler args kwargs h'"
      by (auto simp add: consumes_wrapper_def)
    have "(iscoroutinefunction handler \<and> call handler args kwargs h' = (Coroutine body, h1) \<longrightarrow>
                    consumes_wrapper e mime_types handler args kwargs h =
                      (Delegated (Returned (fst (body h1))), snd (body h1)))
               \<and> (iscoroutinefunction handler \<and> call handler args kwargs h' = (Returned x, h1) \<longrightarrow>
                    consumes_wrapper e mime_types handler args kwargs h = (Raised TypeError, h1))
               \<and> (\<not> iscoroutinefunction handler \<longrightarrow>
                    consumes_wrapper e mime_types handler args kwargs h =
                      (Delegated (fst (call handler args kwargs h')), snd (call handler args kwargs h')))"
      unfolding d
      using delegate_awaits [of handler args kwargs h' body h1]
        delegate_not_awaitable [of handler args kwargs h' x h1]
        delegate_calls [of handler args kwargs h']
      by blast
    with True show ?thesis
      unfolding Let_def content_type_def [symmetric] h'_def [symmetric] by simp
  next
    case False
    from error_response_no_details [OF assms(1,2) rh', of 415] obtain ct b where
      r: "build_error_response e h' ?request 415 ''Unsupported request media type'' None None PNone None =
            (Inr (Response 415 (Some b) (Some ct) []), h')"
      and cases: "ct = ''application/json; charset=utf-8''
                       \<and> b = Str (json_dumps (PDict [(''description'', PStr ''Unsupported request media type'')]))
                     \<or> ct = ''application/xml; charset=utf-8''
                       \<and> b = XmlBytes (Element ''error'' None
                               [Element ''description'' (Some ''Unsupported request media type'') []])
                     \<or> (ct = ''text/plain; charset=utf-8'' \<or> ct = [])
                       \<and> b = Str ''Unsupported request media type''"
      by blast
    from False gct sm r have "\<forall>handler' :: 'r handler. consumes_wrapper e mime_types handler' args kwargs h =
                     (Responded (Response 415 (Some b) (Some ct) []), h')"
      by (auto simp add: consumes_wrapper_def respond_def)
    with cases have "\<exists>ct b. (\<forall>handler' :: 'r handler. consumes_wrapper e mime_types handler' args kwargs h =
                     (Responded (Response 415 (Some b) (Some ct) []), h'))
                 \<and> (ct = ''application/json; charset=utf-8''
                       \<and> b = Str (json_dumps (PDict [(''description'', PStr ''Unsupported request media type'')]))
                     \<or> ct = ''application/xml; charset=utf-8''
                       \<and> b = XmlBytes (Element ''error'' None
                               [Element ''description'' (Some ''Unsupported request media type'') []])
                     \<or> (ct = ''text/plain; charset=utf-8'' \<or> ct = [])
                       \<and> b = Str ''Unsupported request media type'')"
      by blast
    with False show ?thesis
      unfolding Let_def content_type_def [symmetric] h'_def [symmetric] by simp
  qed
qed

text \<open>A JSON request with a charset parameter reaches a handler that consumes JSON: the
  coroutine of the handler is awaited on the heap that holds the attribute.\<close>

theorem consumes_guard_witness:
  "negotiates sample_env \<and> xml_text_ok sample_env ''Unsupported request media type''
   \<and> iscoroutinefunction sample_handler
   \<and> consumes_wrapper sample_env [''application/json''] sample_handler []
       [(''request'', ArgRef 0)]
       (sample_heap [(''content-type'', ''application/json; charset=utf-8'')] []) =
     (Delegated (Returned (None, Some ''application/json'')),
      (sample_heap [(''content-type'', ''application/json; charset=utf-8'')] [])
        (0 := RequestObj \<lparr>headers = [(''content-type'', ''application/json; charset=utf-8'')],
               best_response_mimetype = None, mimetype = Some ''application/json''\<rparr>))"
proof -
  let ?hs = "[(''content-type'', ''application/json; charset=utf-8'')]"
  let ?kw = "[(''request'', ArgRef 0)]"
  let ?h' = "(sample_heap ?hs [])
        (0 := RequestObj \<lparr>headers = ?hs,
               best_response_mimetype = None, mimetype = Some ''application/json''\<rparr>)"
  have tx: "xml_text_ok sample_env ''Unsupported request media type''"
    by (simp add: sample_env_def printable_def)
  have rq: "kwargs_get ?kw ''request'' (kwargs_get ?kw ''_request'' ArgNone) = ArgRef 0"
    by (simp add: kwargs_get_def)
  have h0: "sample_heap ?hs [] 0 =
      RequestObj \<lparr>headers = ?hs, best_response_mimetype = None, mimetype = None\<rparr>"
    by (simp add: sample_heap_def)
  have mr: "media_range ''application/json; charset=utf-8'' = ''application/json''"
    by (simp add: media_range_def)
  have co: "iscoroutinefunction sample_handler"
    by (simp add: sample_handler_def)
  have cl: "call sample_handler [] ?kw ?h' = (Coroutine (sample_body [] ?kw), ?h')"
    by (simp add: sample_handler_def async_def_def)
  have bd: "sample_body [] ?kw ?h' = ((None, Some ''application/json''), ?h')"
    by (simp add: sample_body_def)
  from consumes_guard [where h = "sample_heap ?hs []" and a = 0 and handler = sample_handler
      and args = "[]" and mime_types = "[''application/json'']"
      and body = "sample_body [] ?kw" and ?h1.0 = ?h', OF negotiates_sample_env tx rq h0]
  have "consumes_wrapper sample_env [''application/json''] sample_handler []
       ?kw (sample_heap ?hs []) =
     (Delegated (Returned (fst (sample_body [] ?kw ?h'))), snd (sample_body [] ?kw ?h'))"
    using co cl
    by (simp add: Let_def headers_lookup_def lower_header_names sample_env_def
        simple_parse_mime_type_def mr)
  with tx negotiates_sample_env co show ?thesis by (simp add: bd)
qed

section \<open>The 401 response of authentication_required\<close>

lemma user_absent_or_none:
  "(kwargs_get kwargs ''user'' (kwargs_get kwargs ''_user'' ArgNone) = ArgNone) =
     (map_of kwargs ''user'' = Some ArgNone
      \<or> map_of kwargs ''user'' = None
        \<and> (map_of kwargs ''_user'' = None \<or> map_of kwargs ''_user'' = Some ArgNone))"
  by (auto simp add: kwargs_get_def split: option.splits)

text \<open>
  C6.  For every handler and every invocation of the wrapper of
  \<open>authentication_required\<close>:

  \<^item> if the user argument (\<open>user\<close>, else \<open>_user\<close>) is absent or \<open>None\<close>, the wrapper does
    the same for every handler (the handler is not invoked); when the keyword arguments
    hold the request, the negotiator keeps its contract and \<open>lxml\<close> takes the message as
    text, what it does is to answer with a 401 response whose body is the message
    \<open>Authentication Required\<close> in the negotiated rendering, the heap as it was;

  \<^item> otherwise, whatever the request argument is, it calls the handler with the
    arguments it was given.  When the handler is a coroutine function it awaits the
    call: the body of the coroutine runs on the heap the call left, and the wrapper
    returns its result and the heap it leaves (a call that gives back no coroutine
    cannot be awaited and raises \<open>TypeError\<close>).  When the handler is synchronous it
    returns what the call gave back as it is, nothing awaited: a coroutine among such
    values is returned unrun.
\<close>

theorem authentication_required_guard:
  "let user = kwargs_get kwargs ''user'' (kwargs_get kwargs ''_user'' ArgNone);
       request = kwargs_get kwargs ''request'' (kwargs_get kwargs ''_request'' ArgNone);
       w = authentication_required_wrapper e (handler :: 'r handler) args kwargs h
   in (user = ArgNone \<longrightarrow>
         (\<forall>handler' :: 'r handler. authentication_required_wrapper e handler' args kwargs h = w)
         \<and> (negotiates e \<and> xml_text_ok e ''Authentication Required''
              \<and> request_headers h request = Inr rh \<longrightarrow>
            (\<exists>ct b. w = (Responded (Response 401 (Some b) (Some ct) []), h)
              \<and> (ct = ''application/json; charset=utf-8''
                    \<and> b = Str (json_dumps (PDict [(''description'', PStr ''Authentication Required'')]))
                  \<or> ct = ''application/xml; charset=utf-8''
                    \<and> b = XmlBytes (Element ''error'' None
                            [Element ''description'' (Some ''Authentication Required'') []])
                  \<or> (ct = ''text/plain; charset=utf-8'' \<or> ct = []) \<and> b = Str ''Authentication Required''))))
    \<and> (user \<noteq> ArgNone \<and> iscoroutinefunction handler
          \<and> call handler args kwargs h = (Coroutine body, h1) \<longrightarrow>
        w = (Delegated (Returned (fst (body h1))), snd (body h1)))
    \<and> (user \<noteq> ArgNone \<and> iscoroutinefunction handler
          \<and> call handler args kwargs h = (Returned r, h1) \<longrightarrow>
        w = (Raised TypeError, h1))
    \<and> (user \<noteq> ArgNone \<and> \<not> iscoroutinefunction handler \<longrightarrow>
        w = (Delegated (fst (call handler args kwargs h)), snd (call handler args kwargs h)))"
proof -
  define user where "user = kwargs_get kwargs ''user'' (kwargs_get kwargs ''_user'' ArgNone)"
  define request where
    "request = kwargs_get kwargs ''request'' (kwargs_get kwargs ''_request'' ArgNone)"
  define w where "w = authentication_required_wrapper e handler args kwargs h"
  have none: "\<forall>handler' :: 'r handler. authentication_required_wrapper e handler' args kwargs h = w"
    if "user = ArgNone"
    using that by (simp add: authentication_required_wrapper_def w_def user_def)
  have resp: "\<exists>ct b. w = (Responded (Response 401 (Some b) (Some ct) []), h)
              \<and> (ct = ''application/json; charset=utf-8''
                    \<and> b = Str (json_dumps (PDict [(''description'', PStr ''Authentication Required'')]))
                  \<or> ct = ''application/xml; charset=utf-8''
                    \<and> b = XmlBytes (Element ''error'' None
                            [Element ''description'' (Some ''Authentication Required'') []])
                  \<or> (ct = ''text/plain; charset=utf-8'' \<or> ct = []) \<and> b = Str ''Authentication Required'')"
    if u: "user = ArgNone" and n: "negotiates e" and t: "xml_text_ok e ''Authentication Required''"
      and rq: "request_headers h request = Inr rh"
  proof -
    from error_response_no_details [OF n t rq, of 401] obtain ct b where
      r: "build_error_response e h request 401 ''Authentication Required'' None None PNone None =
          (Inr (Response 401 (Some b) (Some ct) []), h)"
      and cases: "ct = ''application/json; charset=utf-8''
                    \<and> b = Str (json_dumps (PDict [(''description'', PStr ''Authentication Required'')]))
                  \<or> ct = ''application/xml; charset=utf-8''
                    \<and> b = XmlBytes (Element ''error'' None
                            [Element ''description'' (Some ''Authentication Required'') []])
                  \<or> (ct = ''text/plain; charset=utf-8'' \<or> ct = []) \<and> b = Str ''Authentication Required''"
      by blast
    from u r have "w = (Responded (Response 401 (Some b) (Some ct) []), h)"
      by (simp add: authentication_required_wrapper_def respond_def w_def user_def request_def)
    with cases show ?thesis by blast
  qed
  have deleg: "w = delegate handler args kwargs h" if "user \<noteq> ArgNone"
    using that by (simp add: authentication_required_wrapper_def w_def user_def)
  have awaits: "w = (Delegated (Returned (fst (body h1))), snd (body h1))"
    if "user \<noteq> ArgNone" and "iscoroutinefunction handler"
      and "call handler args kwargs h = (Coroutine body, h1)"
    using that deleg delegate_awaits [of handler args kwargs h body h1] by simp
  have not_awaitable: "w = (Raised TypeError, h1)"
    if "user \<noteq> ArgNone" and "iscoroutinefunction handler"
      and "call handler args kwargs h = (Returned r, h1)"
    using that deleg delegate_not_awaitable [of handler args kwargs h r h1] by simp
  have calls: "w = (Delegated (fst (call handler args kwargs h)), snd (call handler args kwargs h))"
    if "user \<noteq> ArgNone" and "\<not> iscoroutinefunction handler"
    using that deleg delegate_calls [of handler args kwargs h] by simp
  have "(user = ArgNone \<longrightarrow>
         (\<forall>handler' :: 'r handler. authentication_required_wrapper e handler' args kwargs h = w)
         \<and> (negotiates e \<and> xml_text_ok e ''Authentication Required''
              \<and> request_headers h request = Inr rh \<longrightarrow>
            (\<exists>ct b. w = (Responded (Response 401 (Some b) (Some ct) []), h)
              \<and> (ct = ''application/json; charset=utf-8''
                    \<and> b = Str (json_dumps (PDict [(''description'', PStr ''Authentication Required'')]))
                  \<or> ct = ''application/xml; charset=utf-8''
                    \<and> b = XmlBytes (Element ''error'' None
                            [Element ''description'' (Some ''Authentication Required'') []])
                  \<or> (ct = ''text/plain; charset=utf-8'' \<or> ct = []) \<and> b = Str ''Authentication Required''))))
    \<and> (user \<noteq> ArgNone \<and> iscoroutinefunction handler
          \<and> call handler args kwargs h = (Coroutine body, h1) \<longrightarrow>
        w = (Delegated (Returned (fst (body h1))), snd (body h1)))
    \<and> (user \<noteq> ArgNone \<and> iscoroutinefunction handler
          \<and> call handler args kwargs h = (Returned r, h1) \<longrightarrow>
        w = (Raised TypeError, h1))
    \<and> (user \<noteq> ArgNone \<and> \<not> iscoroutinefunction handler \<longrightarrow>
        w = (Delegated (fst (call handler args kwargs h)), snd (call handler args kwargs h)))"
    using none resp awaits not_awaitable calls by blast
  then show ?thesis
    unfolding Let_def user_def request_def w_def .
qed

text \<open>Without a user the sample handler is not run; with one, the coroutine of the
  \<open>async def\<close> handler is awaited and the value of the \<open>def\<close> handler is returned as the
  call gave it.  A synchronous function that gives back a coroutine gets it back
  unrun.\<close>

theorem authentication_required_guard_witness:
  "negotiates sample_env \<and> xml_text_ok sample_env ''Authentication Required''
   \<and> authentication_required_wrapper sample_env sample_handler []
       [(''request'', ArgRef 0), (''user'', ArgNone)] (sample_heap [(''accept'', ''text/plain'')] []) =
     (Responded (Response 401 (Some (Str ''Authentication Required''))
        (Some ''text/plain; charset=utf-8'') []), sample_heap [(''accept'', ''text/plain'')] [])
   \<and> iscoroutinefunction sample_handler
   \<and> call sample_handler [] [(''user'', ArgRef 2)] (sample_heap [] []) =
       (Coroutine (sample_body [] [(''user'', ArgRef 2)]), sample_heap [] [])
   \<and> authentication_required_wrapper sample_env sample_handler []
       [(''user'', ArgRef 2)] (sample_heap [] []) =
     (Delegated (Returned (None, None)), sample_heap [] [])
   \<and> \<not> iscoroutinefunction sample_sync_handler
   \<and> authentication_required_wrapper sample_env sample_sync_handler []
       [(''user'', ArgRef 2)] (sample_heap [] []) =
     (Delegated (Returned (None, None)), sample_heap [] [])
   \<and> authentication_required_wrapper sample_env
       \<lparr>parameters = [''request'', ''user''], iscoroutinefunction = False,
        call = async_def sample_body\<rparr> []
       [(''user'', ArgRef 2)] (sample_heap [] []) =
     (Delegated (Coroutine (sample_body [] [(''user'', ArgRef 2)])), sample_heap [] [])"
proof -
  let ?h = "sample_heap [(''accept'', ''text/plain'')] []"
  let ?kwn = "[(''request'', ArgRef 0), (''user'', ArgNone)]"
  let ?kw = "[(''user'', ArgRef 2)]"
  let ?lazy = "\<lparr>parameters = [''request'', ''user''], iscoroutinefunction = False,
        call = async_def sample_body\<rparr>"
  have tx: "xml_text_ok sample_env ''Authentication Required''"
    by (simp add: sample_env_def printable_def)
  have u0: "kwargs_get ?kwn ''user'' (kwargs_get ?kwn ''_user'' ArgNone) = ArgNone"
    by (simp add: kwargs_get_def)
  have u: "kwargs_get ?kw ''user'' (kwargs_get ?kw ''_user'' ArgNone) \<noteq> ArgNone"
    by (simp add: kwargs_get_def)
  have rq: "request_headers ?h (kwargs_get ?kwn ''request'' (kwargs_get ?kwn ''_request'' ArgNone)) =
      Inr [(''accept'', ''text/plain'')]"
    by (simp add: request_headers_def kwargs_get_def sample_heap_def)
  have co: "iscoroutinefunction sample_handler"
    by (simp add: sample_handler_def)
  have cl: "call sample_handler [] ?kw (sample_heap [] []) =
       (Coroutine (sample_body [] ?kw), sample_heap [] [])"
    by (simp add: sample_handler_def async_def_def)
  have sy: "\<not> iscoroutinefunction sample_sync_handler"
    by (simp add: sample_sync_handler_def)
  have bd: "sample_body [] ?kw (sample_heap [] []) = ((None, None), sample_heap [] [])"
    by (simp add: sample_body_def sample_heap_def)
  have "\<exists>ct b. authentication_required_wrapper sample_env sample_handler [] ?kwn ?h =
          (Responded (Response 401 (Some b) (Some ct) []), ?h)"
    using authentication_required_guard [where e = sample_env and handler = sample_handler
        and args = "[]" and kwargs = ?kwn and h = ?h and rh = "[(''accept'', ''text/plain'')]"]
      negotiates_sample_env tx rq u0
    unfolding Let_def by blast
  then have none: "authentication_required_wrapper sample_env sample_handler [] ?kwn ?h =
     (Responded (Response 401 (Some (Str ''Authentication Required''))
        (Some ''text/plain; charset=utf-8'') []), ?h)"
    by (simp add: authentication_required_wrapper_def respond_def kwargs_get_def
        build_error_response_def build_response_def request_headers_def sample_heap_def
        resolve_content_type_def headers_get_def headers_lookup_def lower_header_names
        ERROR_FORMATTERS_def sample_env_def simple_best_match_def media_range_def
        get_plain_text_error_response_def py_str_def set_headers_def)
  have "authentication_required_wrapper sample_env sample_handler [] ?kw (sample_heap [] []) =
      (Delegated (Returned (fst (sample_body [] ?kw (sample_heap [] [])))),
       snd (sample_body [] ?kw (sample_heap [] [])))"
    using authentication_required_guard [where e = sample_env and handler = sample_handler
        and args = "[]" and kwargs = ?kw and h = "sample_heap [] []"
        and body = "sample_body [] ?kw" and ?h1.0 = "sample_heap [] []"] u co cl
    unfolding Let_def by blast
  then have a: "authentication_required_wrapper sample_env sample_handler [] ?kw (sample_heap [] []) =
      (Delegated (Returned (None, None)), sample_heap [] [])"
    by (simp add: bd)
  have "authentication_required_wrapper sample_env sample_sync_handler [] ?kw (sample_heap [] []) =
      (Delegated (fst (call sample_sync_handler [] ?kw (sample_heap [] []))),
       snd (call sample_sync_handler [] ?kw (sample_heap [] [])))"
    using authentication_required_guard [where e = sample_env and handler = sample_sync_handler
        and args = "[]" and kwargs = ?kw and h = "sample_heap [] []"] u sy
    unfolding Let_def by blast
  then have s: "authentication_required_wrapper sample_env sample_sync_handler [] ?kw (sample_heap [] []) =
      (Delegated (Returned (None, None)), sample_heap [] [])"
    by (simp add: sample_sync_handler_def sync_def_def bd)
  have "authentication_required_wrapper sample_env ?lazy [] ?kw (sample_heap [] []) =
      (Delegated (fst (call ?lazy [] ?kw (sample_heap [] []))),
       snd (call ?lazy [] ?kw (sample_heap [] [])))"
    using authentication_required_guard [where e = sample_env and handler = ?lazy
        and args = "[]" and kwargs = ?kw and h = "sample_heap [] []"] u
    unfolding Let_def by simp
  then have l: "authentication_required_wrapper sample_env ?lazy [] ?kw (sample_heap [] []) =
      (Delegated (Coroutine (sample_body [] ?kw)), sample_heap [] [])"
    by (simp add: async_def_def)
  from none a s l co cl sy tx negotiates_sample_env show ?thesis by simp
qed

section \<open>The wrap-time check of the guards\<close>

lemma check_request:
  "check_decorator_params handler [''request''] =
     (if declares handler ''request'' then Inr ()
      else Inl (ValueError ''The handler must have a request parameter''))"
  by (simp add: declares_def)

lemma check_user_request:
  "check_decorator_params handler [''user'', ''request''] =
     (if \<not> declares handler ''user''
      then Inl (ValueError ''The handler must have a user parameter'')
      else if \<not> declares handler ''request''
      then Inl (ValueError ''The handler must have a request parameter'')
      else Inr ())"
  by (simp add: declares_def)

text \<open>
  C7.  Applying \<open>authentication_required\<close> to a handler that declares no \<open>user\<close> (or
  \<open>_user\<close>) parameter, or no \<open>request\<close> (or \<open>_request\<close>) parameter, raises a
  \<open>ValueError\<close>: the error is the value of the decoration itself, no wrapper exists and
  no request is handled.  A handler that declares both is wrapped.  \<open>produces\<close> and
  \<open>consumes\<close> check the \<open>request\<close> parameter in the same way.
\<close>

theorem wrap_time_check:
  "authentication_required e handler =
     (if \<not> declares handler ''user''
      then Inl (ValueError ''The handler must have a user parameter'')
      else if \<not> declares handler ''request''
      then Inl (ValueError ''The handler must have a request parameter'')
      else Inr \<lparr>parameters = parameters handler, iscoroutinefunction = True,
                call = async_def (authentication_required_wrapper e handler)\<rparr>)
   \<and> produces e mime_types handler =
     (if \<not> declares handler ''request''
      then Inl (ValueError ''The handler must have a request parameter'')
      else Inr \<lparr>parameters = parameters handler, iscoroutinefunction = True,
                call = async_def (produces_wrapper e mime_types handler)\<rparr>)
   \<and> consumes e mime_types handler =
     (if \<not> declares handler ''request''
      then Inl (ValueError ''The handler must have a request parameter'')
      else Inr \<lparr>parameters = parameters handler, iscoroutinefunction = True,
                call = async_def (consumes_wrapper e mime_types handler)\<rparr>)"
  by (simp add: authentication_required_def produces_def consumes_def
      check_request check_user_request del: check_decorator_params.simps)

text \<open>The workspace list route declares no \<open>request\<close> parameter: decorating it fails, and
  a handler that declares both parameters is wrapped.\<close>

theorem wrap_time_check_witness:
  "authentication_required sample_env get_workspace_list_route =
     Inl (ValueError ''The handler must have a request parameter'')
   \<and> produces sample_env [''application/json''] get_workspace_list_route =
     Inl (ValueError ''The handler must have a request parameter'')
   \<and> authentication_required sample_env sample_handler =
     Inr \<lparr>parameters = [''request'', ''user''], iscoroutinefunction = True,
          call = async_def (authentication_required_wrapper sample_env sample_handler)\<rparr>"
  using wrap_time_check [of sample_env get_workspace_list_route "[''application/json'']"]
    wrap_time_check [of sample_env sample_handler "[]"]
  by (simp add: declares_def get_workspace_list_route_def sample_handler_def)

section \<open>Reading back what the JSON formatter writes\<close>

lemma hex_value_digit: "a < 16 \<Longrightarrow> hex_value (hex_digit a) = Some a"
  by (auto simp add: hex_value_def hex_digit_def Let_def)

lemma char_of_code: "(of_char c :: nat) = n \<Longrightarrow> c = char_of n"
  by auto

lemma unicode_escape_control:
  assumes "n < 32"
  shows "unicode_escape (take 4 (CHR ''0'' # CHR ''0'' # hex_digit (n div 16) # hex_digit (n mod 16) # rest)) =
     Some (char_of n)"
proof -
  from assms have d: "n div 16 < 16" "n mod 16 < 16" by simp_all
  have z: "hex_value CHR ''0'' = Some 0" by (simp add: hex_value_def)
  from assms show ?thesis
    by (simp add: unicode_escape_def z hex_value_digit [OF d(1)] hex_value_digit [OF d(2)])
qed

lemma parse_escaped_char:
  "parse_chars (json_escape_char c @ rest) =
     (case parse_chars rest of None \<Rightarrow> None | Some r \<Rightarrow> Some (c # fst r, snd r))"
proof -
  let ?n = "of_char c :: nat"
  let ?rhs = "case parse_chars rest of None \<Rightarrow> None | Some r \<Rightarrow> Some (c # fst r, snd r)"
  have simple: "parse_chars (backslash # x # rest) = ?rhs"
    if "x \<noteq> CHR ''u''" and "simple_escape x = Some c" for x
    using that by (simp add: backslash_def dquote_def)
  consider (quote) "c = dquote" | (backslash) "c = backslash"
    | (b) "c \<noteq> dquote" "c \<noteq> backslash" "?n = 8"
    | (t) "c \<noteq> dquote" "c \<noteq> backslash" "?n = 9"
    | (n) "c \<noteq> dquote" "c \<noteq> backslash" "?n = 10"
    | (f) "c \<noteq> dquote" "c \<noteq> backslash" "?n = 12"
    | (r) "c \<noteq> dquote" "c \<noteq> backslash" "?n = 13"
    | (u) "c \<noteq> dquote" "c \<noteq> backslash" "?n \<noteq> 8" "?n \<noteq> 9" "?n \<noteq> 10" "?n \<noteq> 12" "?n \<noteq> 13" "?n < 32"
    | (raw) "c \<noteq> dquote" "c \<noteq> backslash" "\<not> ?n < 32"
    by linarith
  then show ?thesis
  proof cases
    case quote
    have "json_escape_char c = [backslash, dquote]"
      using quote by (simp add: json_escape_char_def)
    moreover have "parse_chars (backslash # dquote # rest) = ?rhs"
      by (rule simple) (simp_all add: simple_escape_def dquote_def quote)
    ultimately show ?thesis by simp
  next
    case backslash
    have "json_escape_char c = [backslash, backslash]"
      using backslash by (simp add: json_escape_char_def backslash_def dquote_def)
    moreover have "parse_chars (backslash # backslash # rest) = ?rhs"
      by (rule simple) (simp_all add: simple_escape_def dquote_def backslash_def backslash)
    ultimately show ?thesis by simp
  next
    case b
    have "json_escape_char c = [backslash, CHR ''b'']"
      using b by (simp add: json_escape_char_def)
    moreover have "parse_chars (backslash # CHR ''b'' # rest) = ?rhs"
      by (rule simple) (simp_all add: simple_escape_def dquote_def backslash_def char_of_code [OF b(3)])
    ultimately show ?thesis by simp
  next
    case t
    have "json_escape_char c = [backslash, CHR ''t'']"
      using t by (simp add: json_escape_char_def)
    moreover have "parse_chars (backslash # CHR ''t'' # rest) = ?rhs"
      by (rule simple) (simp_all add: simple_escape_def dquote_def backslash_def char_of_code [OF t(3)])
    ultimately show ?thesis by simp
  next
    case n
    have "json_escape_char c = [backslash, CHR ''n'']"
      using n by (simp add: json_escape_char_def)
    moreover have "parse_chars (backslash # CHR ''n'' # rest) = ?rhs"
      by (rule simple) (simp_all add: simple_escape_def dquote_def backslash_def char_of_code [OF n(3)])
    ultimately show ?thesis by simp
  next
    case f
    have "json_escape_char c = [backslash, CHR ''f'']"
      using f by (simp add: json_escape_char_def)
    moreover have "parse_chars (backslash # CHR ''f'' # rest) = ?rhs"
      by (rule simple) (simp_all add: simple_escape_def dquote_def backslash_def char_of_code [OF f(3)])
    ultimately show ?thesis by simp
  next
    case r
    have "json_escape_char c = [backslash, CHR ''r'']"
      using r by (simp add: json_escape_char_def)
    moreover have "parse_chars (backslash # CHR ''r'' # rest) = ?rhs"
      by (rule simple) (simp_all add: simple_escape_def dquote_def backslash_def char_of_code [OF r(3)])
    ultimately show ?thesis by simp
  next
    case u
    have e: "json_escape_char c =
        [backslash, CHR ''u'', CHR ''0'', CHR ''0'', hex_digit (?n div 16), hex_digit (?n mod 16)]"
      using u by (simp add: json_escape_char_def Let_def)
    have c: "char_of ?n = c" by simp
    have "parse_chars (backslash # CHR ''u'' # CHR ''0'' # CHR ''0'' # hex_digit (?n div 16) #
        hex_digit (?n mod 16) # rest) = ?rhs"
      using unicode_escape_control [OF u(8), of rest]
      by (simp add: backslash_def dquote_def c del: take_Suc_Cons)
    with e show ?thesis by simp
  next
    case raw
    have "json_escape_char c = [c]"
      using raw by (auto simp add: json_escape_char_def)
    moreover have "parse_chars (c # rest) = ?rhs"
      using raw by simp
    ultimately show ?thesis by simp
  qed
qed

lemma parse_chars_escaped:
  "parse_chars (concat (map json_escape_char s) @ dquote # rest) = Some (s, rest)"
proof (induction s)
  case Nil
  then show ?case by simp
next
  case (Cons c s)
  have "parse_chars (concat (map json_escape_char (c # s)) @ dquote # rest) =
      parse_chars (json_escape_char c @ (concat (map json_escape_char s) @ dquote # rest))"
    by simp
  also have "\<dots> = Some (c # s, rest)"
    unfolding parse_escaped_char Cons.IH by simp
  finally show ?case .
qed

lemma json_dumps_head:
  "\<exists>c cs. json_dumps v = c # cs \<and> (c = CHR ''n'' \<or> c = dquote \<or> c = CHR ''['' \<or> c = CHR ''{'')"
  by (cases v) (simp_all add: json_string_def)

lemma parse_value_null: "parse_value (Suc n) (''null'' @ rest) = Some (PNone, rest)"
  by (simp add: startswith_def)

lemma parse_value_string:
  "parse_value (Suc n) (json_string s @ rest) = Some (PStr s, rest)"
  using parse_chars_escaped [of s rest]
  by (simp add: json_string_def startswith_def dquote_def)

lemma parse_value_empty_list: "parse_value (Suc n) (''[]'' @ rest) = Some (PList [], rest)"
  by (simp add: startswith_def dquote_def)

lemma parse_value_empty_dict: "parse_value (Suc n) (''{}'' @ rest) = Some (PDict [], rest)"
  by (simp add: startswith_def dquote_def)

lemma parse_value_list:
  assumes "parse_elements n (s @ CHR '']'' # rest) = Some (xs, rest)"
    and "\<exists>c cs. s = c # cs \<and> c \<noteq> CHR '']''"
  shows "parse_value (Suc n) (CHR ''['' # s @ CHR '']'' # rest) = Some (PList xs, rest)"
  using assms by (auto simp add: startswith_def dquote_def)

lemma parse_value_dict:
  assumes "parse_members n (s @ CHR ''}'' # rest) = Some (kvs, rest)"
    and "\<exists>c cs. s = c # cs \<and> c \<noteq> CHR ''}''"
  shows "parse_value (Suc n) (CHR ''{'' # s @ CHR ''}'' # rest) = Some (PDict kvs, rest)"
  using assms by (auto simp add: startswith_def dquote_def)

lemma parse_elements_last:
  assumes "parse_value n (s @ CHR '']'' # rest) = Some (x, CHR '']'' # rest)"
  shows "parse_elements (Suc n) (s @ CHR '']'' # rest) = Some ([x], rest)"
  using assms by simp

lemma parse_elements_more:
  assumes "parse_value n (s @ CHR '','' # t) = Some (x, CHR '','' # t)"
    and "parse_elements n t = Some (xs, rest)"
  shows "parse_elements (Suc n) (s @ CHR '','' # t) = Some (x # xs, rest)"
  using assms by simp

lemma parse_members_last:
  assumes "parse_value n (s @ CHR ''}'' # rest) = Some (x, CHR ''}'' # rest)"
  shows "parse_members (Suc n) (json_string k @ CHR '':'' # s @ CHR ''}'' # rest) = Some ([(k, x)], rest)"
  using assms parse_chars_escaped [of k "CHR '':'' # s @ CHR ''}'' # rest"]
  by (simp add: json_string_def)

lemma parse_members_more:
  assumes "parse_value n (s @ CHR '','' # t) = Some (x, CHR '','' # t)"
    and "parse_members n t = Some (kvs, rest)"
  shows "parse_members (Suc n) (json_string k @ CHR '':'' # s @ CHR '','' # t) = Some ((k, x) # kvs, rest)"
  using assms parse_chars_escaped [of k "CHR '':'' # s @ CHR '','' # t"]
  by (simp add: json_string_def)

lemma parse_elements_join:
  assumes "\<And>x n rest. x \<in> set xs \<Longrightarrow> fuel x \<le> n \<Longrightarrow>
             parse_value n (json_dumps x @ rest) = Some (x, rest)"
    and "xs \<noteq> []" and "sum_list (map (\<lambda>x. Suc (fuel x)) xs) \<le> n"
  shows "parse_elements n (str_join '','' (map json_dumps xs) @ CHR '']'' # rest) = Some (xs, rest)"
  using assms
proof (induction xs arbitrary: n)
  case Nil
  then show ?case by simp
next
  case (Cons x xs)
  from Cons.prems(3) obtain m where n: "n = Suc m" and fx: "fuel x \<le> m"
    and fxs: "sum_list (map (\<lambda>x. Suc (fuel x)) xs) \<le> m"
    by (cases n) simp_all
  show ?case
  proof (cases xs)
    case Nil
    from Cons.prems(1) [of x m "CHR '']'' # rest"] fx
    have "parse_value m (json_dumps x @ CHR '']'' # rest) = Some (x, CHR '']'' # rest)" by simp
    from parse_elements_last [OF this] Nil n show ?thesis by simp
  next
    case (Cons y ys)
    let ?t = "str_join '','' (map json_dumps xs) @ CHR '']'' # rest"
    have ih: "parse_elements m ?t = Some (xs, rest)"
    proof (rule Cons.IH)
      show "parse_value k (json_dumps z @ r) = Some (z, r)" if "z \<in> set xs" "fuel z \<le> k" for z k r
        using that Cons.prems(1) [of z k r] by simp
      show "xs \<noteq> []" using Cons by simp
      show "sum_list (map (\<lambda>x. Suc (fuel x)) xs) \<le> m" by (rule fxs)
    qed
    from Cons.prems(1) [of x m "CHR '','' # ?t"] fx
    have "parse_value m (json_dumps x @ CHR '','' # ?t) = Some (x, CHR '','' # ?t)" by simp
    from parse_elements_more [OF this ih] Cons n show ?thesis by simp
  qed
qed

lemma parse_members_join:
  assumes "\<And>p n rest. p \<in> set kvs \<Longrightarrow> fuel (snd p) \<le> n \<Longrightarrow>
             parse_value n (json_dumps (snd p) @ rest) = Some (snd p, rest)"
    and "kvs \<noteq> []" and "sum_list (map (\<lambda>p. Suc (fuel (snd p))) kvs) \<le> n"
  shows "parse_members n
           (str_join '','' (map (\<lambda>p. json_string (fst p) @ '':'' @ json_dumps (snd p)) kvs) @ CHR ''}'' # rest) =
         Some (kvs, rest)"
  using assms
proof (induction kvs arbitrary: n)
  case Nil
  then show ?case by simp
next
  case (Cons p kvs)
  obtain k v where p: "p = (k, v)" by (cases p)
  from Cons.prems(3) p obtain m where n: "n = Suc m" and fx: "fuel v \<le> m"
    and fxs: "sum_list (map (\<lambda>p. Suc (fuel (snd p))) kvs) \<le> m"
    by (cases n) simp_all
  show ?case
  proof (cases kvs)
    case Nil
    from Cons.prems(1) [of p m "CHR ''}'' # rest"] fx p
    have "parse_value m (json_dumps v @ CHR ''}'' # rest) = Some (v, CHR ''}'' # rest)" by simp
    from parse_members_last [OF this, of k] Nil n p show ?thesis by simp
  next
    case (Cons q qs)
    let ?t = "str_join '','' (map (\<lambda>p. json_string (fst p) @ '':'' @ json_dumps (snd p)) kvs) @ CHR ''}'' # rest"
    have ih: "parse_members m ?t = Some (kvs, rest)"
    proof (rule Cons.IH)
      show "parse_value j (json_dumps (snd z) @ r) = Some (snd z, r)"
        if "z \<in> set kvs" "fuel (snd z) \<le> j" for z j r
        using that Cons.prems(1) [of z j r] by simp
      show "kvs \<noteq> []" using Cons by simp
      show "sum_list (map (\<lambda>p. Suc (fuel (snd p))) kvs) \<le> m" by (rule fxs)
    qed
    from Cons.prems(1) [of p m "CHR '','' # ?t"] fx p
    have "parse_value m (json_dumps v @ CHR '','' # ?t) = Some (v, CHR '','' # ?t)" by simp
    from parse_members_more [OF this ih, of k] Cons n p show ?thesis by simp
  qed
qed

lemma str_join_head:
  assumes "xs \<noteq> []" and "hd xs = c # cs"
  shows "\<exists>cs'. str_join sep xs = c # cs'"
proof (cases xs)
  case Nil
  with assms show ?thesis by simp
next
  case (Cons y ys)
  with assms show ?thesis by (cases ys) simp_all
qed

lemma parse_value_dumps:
  "fuel v \<le> n \<Longrightarrow> parse_value n (json_dumps v @ rest) = Some (v, rest)"
proof (induction v arbitrary: n rest)
  case PNone
  then obtain m where "n = Suc m" by (cases n) simp_all
  then show ?case using parse_value_null by simp
next
  case (PStr s)
  then obtain m where "n = Suc m" by (cases n) simp_all
  then show ?case using parse_value_string by simp
next
  case (PList xs)
  from PList.prems obtain m where n: "n = Suc m"
    and f: "sum_list (map (\<lambda>x. Suc (fuel x)) xs) \<le> m"
    by (cases n) simp_all
  show ?case
  proof (cases "xs = []")
    case True
    with n parse_value_empty_list [of m rest] show ?thesis by simp
  next
    case False
    let ?s = "str_join '','' (map json_dumps xs)"
    have el: "parse_elements m (?s @ CHR '']'' # rest) = Some (xs, rest)"
      using PList.IH False f by (intro parse_elements_join) auto
    from json_dumps_head [of "hd xs"] obtain c cs where
      h: "json_dumps (hd xs) = c # cs" and c: "c = CHR ''n'' \<or> c = dquote \<or> c = CHR ''['' \<or> c = CHR ''{''"
      by blast
    from False h have "hd (map json_dumps xs) = c # cs" by (simp add: hd_map)
    with False str_join_head [of "map json_dumps xs" c cs "'',''"]
    obtain cs' where "?s = c # cs'" by auto
    moreover from c have "c \<noteq> CHR '']''" by (auto simp add: dquote_def)
    ultimately have "\<exists>c cs. ?s = c # cs \<and> c \<noteq> CHR '']''" by blast
    from parse_value_list [OF el this] n show ?thesis by simp
  qed
next
  case (PDict kvs)
  from PDict.prems obtain m where n: "n = Suc m"
    and f: "sum_list (map (\<lambda>p. Suc (fuel (snd p))) kvs) \<le> m"
    by (cases n) simp_all
  show ?case
  proof (cases "kvs = []")
    case True
    with n parse_value_empty_dict [of m rest] show ?thesis by simp
  next
    case False
    let ?s = "str_join '','' (map (\<lambda>p. json_string (fst p) @ '':'' @ json_dumps (snd p)) kvs)"
    have ih: "parse_value j (json_dumps (snd p) @ r) = Some (snd p, r)"
      if "p \<in> set kvs" "fuel (snd p) \<le> j" for p j r
    proof -
      obtain k v where p: "p = (k, v)" by (cases p)
      with that PDict.IH [of p v j r] show ?thesis by simp
    qed
    have el: "parse_members m (?s @ CHR ''}'' # rest) = Some (kvs, rest)"
      using ih False f by (intro parse_members_join) auto
    from False have "hd (map (\<lambda>p. json_string (fst p) @ '':'' @ json_dumps (snd p)) kvs) =
        dquote # (concat (map json_escape_char (fst (hd kvs))) @ [dquote] @ '':'' @ json_dumps (snd (hd kvs)))"
      by (simp add: hd_map json_string_def)
    with False str_join_head [of "map (\<lambda>p. json_string (fst p) @ '':'' @ json_dumps (snd p)) kvs" dquote _ "'',''"]
    obtain cs' where "?s = dquote # cs'" by auto
    moreover have "dquote \<noteq> CHR ''}''" by (simp add: dquote_def)
    ultimately have "\<exists>c cs. ?s = c # cs \<and> c \<noteq> CHR ''}''" by blast
    from parse_value_dict [OF el this] n show ?thesis by simp
  qed
qed

lemma length_str_join:
  "xs \<noteq> [] \<Longrightarrow> Suc (length (str_join '','' xs)) = sum_list (map (\<lambda>x. Suc (length x)) xs)"
proof (induction xs)
  case Nil
  then show ?case by simp
next
  case (Cons x xs)
  then show ?case by (cases xs) simp_all
qed

lemma fuel_le_length: "fuel v \<le> length (json_dumps v)"
proof (induction v)
  case PNone
  then show ?case by simp
next
  case (PStr s)
  then show ?case by (simp add: json_string_def)
next
  case (PList xs)
  show ?case
  proof (cases "xs = []")
    case True
    then show ?thesis by simp
  next
    case False
    have "sum_list (map (\<lambda>x. Suc (fuel x)) xs) \<le> sum_list (map (\<lambda>x. Suc (length (json_dumps x))) xs)"
      using PList.IH by (intro sum_list_mono) simp
    also have "\<dots> = sum_list (map (\<lambda>x. Suc (length x)) (map json_dumps xs))"
      by (simp add: comp_def)
    also have "\<dots> = Suc (length (str_join '','' (map json_dumps xs)))"
      using False by (simp add: length_str_join)
    finally show ?thesis by simp
  qed
next
  case (PDict kvs)
  show ?case
  proof (cases "kvs = []")
    case True
    then show ?thesis by simp
  next
    case False
    let ?f = "\<lambda>p. json_string (fst p) @ '':'' @ json_dumps (snd p)"
    have "fuel (snd p) \<le> length (?f p)" if "p \<in> set kvs" for p
    proof -
      obtain k v where p: "p = (k, v)" by (cases p)
      with that PDict.IH [of p v] show ?thesis by simp
    qed
    then have "sum_list (map (\<lambda>p. Suc (fuel (snd p))) kvs) \<le> sum_list (map (\<lambda>p. Suc (length (?f p))) kvs)"
      by (intro sum_list_mono) simp
    also have "\<dots> = sum_list (map (\<lambda>x. Suc (length x)) (map ?f kvs))"
      by (simp add: comp_def)
    also have "\<dots> = Suc (length (str_join '','' (map ?f kvs)))"
      using False by (simp add: length_str_join)
    finally show ?thesis by simp
  qed
qed

lemma json_loads_dumps: "json_loads (json_dumps v) = Some v"
  using parse_value_dumps [OF fuel_le_length, of v "[]"]
  by (simp add: json_loads_def)

text \<open>
  C8.  For every message and every context, the JSON formatter applied to the context
  as \<open>build_error_response\<close> fills it returns a string that reads back as exactly the
  object with the one member \<open>description\<close> equal to the message when \<open>details\<close> is
  \<open>None\<close> (no \<open>details\<close> member), and as the object with \<open>description\<close> and then
  \<open>details\<close> equal to the given value when it is not.
\<close>

theorem json_error_body_round_trip:
  "\<exists>s. get_json_error_response e request mimetype' status_code
          (dict_update context [(''error_msg'', PStr error_msg), (''details'', details)]) =
        Inr (Str s)
      \<and> json_loads s =
          Some (PDict (if details = PNone then [(''description'', PStr error_msg)]
                       else [(''description'', PStr error_msg), (''details'', details)]))"
proof -
  let ?c = "dict_update context [(''error_msg'', PStr error_msg), (''details'', details)]"
  have m: "map_of ?c ''error_msg'' = Some (PStr error_msg)" and d: "map_of ?c ''details'' = Some details"
    unfolding context_update_lookup by simp_all
  let ?body = "if details = PNone then [(''description'', PStr error_msg)]
                       else [(''description'', PStr error_msg), (''details'', details)]"
  have "get_json_error_response e request mimetype' status_code ?c = Inr (Str (json_dumps (PDict ?body)))"
    unfolding get_json_error_response_def m d
    by (cases details) (simp_all add: py_str_def del: json_dumps.simps)
  with json_loads_dumps [of "PDict ?body"] show ?thesis by blast
qed

text \<open>The body of the 404 response, character by character.\<close>

theorem json_error_body_round_trip_witness:
  "get_json_error_response sample_env (ArgRef 0) ''application/json; charset=utf-8'' 404
     [(''error_msg'', PStr ''Page Not Found''), (''details'', PNone)] =
   Inr (Str (''{'' @ [dquote] @ ''description'' @ [dquote] @ '':'' @ [dquote] @ ''Page Not Found''
        @ [dquote] @ ''}''))
   \<and> json_loads (''{'' @ [dquote] @ ''description'' @ [dquote] @ '':'' @ [dquote] @ ''Page Not Found''
        @ [dquote] @ ''}'') =
     Some (PDict [(''description'', PStr ''Page Not Found'')])"
proof -
  let ?s = "''{'' @ [dquote] @ ''description'' @ [dquote] @ '':'' @ [dquote] @ ''Page Not Found''
        @ [dquote] @ ''}''"
  have ev: "get_json_error_response sample_env (ArgRef 0) ''application/json; charset=utf-8'' 404
     [(''error_msg'', PStr ''Page Not Found''), (''details'', PNone)] = Inr (Str ?s)"
    by (simp add: get_json_error_response_def py_str_def json_string_def json_escape_char_def
        dquote_def backslash_def)
  from json_error_body_round_trip [of sample_env "ArgRef 0" "''application/json; charset=utf-8''" 404
      "[]" "''Page Not Found''" PNone]
  obtain s where s: "get_json_error_response sample_env (ArgRef 0) ''application/json; charset=utf-8'' 404
     [(''error_msg'', PStr ''Page Not Found''), (''details'', PNone)] = Inr (Str s)"
    and l: "json_loads s = Some (PDict [(''description'', PStr ''Page Not Found'')])"
    by auto
  from s ev have "s = ?s" by simp
  with l ev show ?thesis by simp
qed

section \<open>The XML rendering of a details mapping\<close>

text \<open>
  C9.  A nested mapping under a key of \<open>details\<close> does not become child elements named
  after the nested keys: a \<open>dict\<close> has \<open>__iter__\<close>, so the branch for sequences takes it
  and renders each nested key as the text of an \<open>element\<close> child, dropping the nested
  values.  Here \<open>{"field": {"name": "required"}}\<close>.
\<close>

theorem nested_mapping_rendered_as_elements:
  "get_xml_error_response sample_env (ArgRef 0) ''application/xml; charset=utf-8'' 400
     [(''error_msg'', PStr ''bad''),
      (''details'', PDict [(''field'', PDict [(''name'', PStr ''required'')])])] =
   Inr (XmlBytes (Element ''error'' None
     [Element ''description'' (Some ''bad'') [],
      Element ''details'' None
        [Element ''field'' None [Element ''element'' (Some ''name'') []]]]))"
  by (simp add: get_xml_error_response_def py_str_def set_text_def details_child_def
      key_element_def sample_env_def printable_def)

lemma list_elements_keys:
  "list_all (xml_text_ok e) (map fst kvs) \<Longrightarrow>
   list_elements e (map (\<lambda>p. PStr (fst p)) kvs) =
     Inr (map (\<lambda>p. Element ''element'' (Some (fst p)) []) kvs)"
  by (induction kvs) (simp_all add: set_text_def)

text \<open>
  What the XML formatter makes of one key of a \<open>details\<close> mapping, for a key \<open>lxml\<close>
  takes as a tag: a string value becomes the text of the element, a list of strings
  one \<open>element\<close> child per string, and a nested mapping one \<open>element\<close> child per nested
  key, with the key as its text; a value that is \<open>None\<close> raises a \<open>TypeError\<close>.
\<close>

theorem xml_element_of_key:
  assumes "xml_tag_ok e key"
  shows "(xml_text_ok e s \<longrightarrow> key_element e key (PStr s) = Inr (Element key (Some s) []))
       \<and> (list_all (xml_text_ok e) ms \<longrightarrow>
            key_element e key (PList (map PStr ms)) =
              Inr (Element key None (map (\<lambda>m. Element ''element'' (Some m) []) ms)))
       \<and> (list_all (xml_text_ok e) (map fst kvs) \<longrightarrow>
            key_element e key (PDict kvs) =
              Inr (Element key None (map (\<lambda>p. Element ''element'' (Some (fst p)) []) kvs)))
       \<and> key_element e key PNone = Inl TypeError"
  using assms
  by (simp add: key_element_def set_text_def list_elements_strings list_elements_keys)

text \<open>A string, a list and a nested mapping under the key \<open>field\<close>.\<close>

theorem xml_element_of_key_witness:
  "xml_tag_ok sample_env ''field'' \<and> xml_text_ok sample_env ''required''
   \<and> key_element sample_env ''field'' (PStr ''required'') = Inr (Element ''field'' (Some ''required'') [])
   \<and> list_all (xml_text_ok sample_env) [''a'', ''b'']
   \<and> key_element sample_env ''field'' (PList [PStr ''a'', PStr ''b'']) =
       Inr (Element ''field'' None [Element ''element'' (Some ''a'') [], Element ''element'' (Some ''b'') []])
   \<and> list_all (xml_text_ok sample_env) (map fst [(''name'', PStr ''required'')])
   \<and> key_element sample_env ''field'' (PDict [(''name'', PStr ''required'')]) =
       Inr (Element ''field'' None [Element ''element'' (Some ''name'') []])"
proof -
  have tg: "xml_tag_ok sample_env ''field''" by (simp add: sample_env_def)
  have t1: "xml_text_ok sample_env ''required''" by (simp add: sample_env_def printable_def)
  have t2: "list_all (xml_text_ok sample_env) [''a'', ''b'']" by (simp add: sample_env_def printable_def)
  have t3: "list_all (xml_text_ok sample_env) (map fst [(''name'', PStr ''required'')])"
    by (simp add: sample_env_def printable_def)
  note inst = xml_element_of_key [OF tg, where s = "''required''" and ms = "[''a'', ''b'']"
      and kvs = "[(''name'', PStr ''required'')]"]
  from inst [THEN conjunct1, THEN mp, OF t1]
    inst [THEN conjunct2, THEN conjunct1, THEN mp, OF t2]
    inst [THEN conjunct2, THEN conjunct2, THEN conjunct1, THEN mp, OF t3]
    tg t1 t2 t3
  show ?thesis by simp
qed

section \<open>The error context\<close>

text \<open>
  C10.  Given a reference to a dictionary of the caller as \<open>context\<close>,
  \<open>build_error_response\<close> changes that dictionary where it lives: afterwards the heap
  holds, at the same address, the dictionary with \<open>error_msg\<close> set to the message and
  \<open>details\<close> set to the details, whatever stood under those keys; every other key keeps
  its value and its place, every other object of the heap is as before; and the response
  is built from the updated dictionary, which is the context the selected formatter is
  applied to.
\<close>

theorem context_updated_in_place:
  assumes "h a = DictObj d"
  shows "let d' = dict_update d [(''error_msg'', PStr error_msg), (''details'', details)];
             h' = h(a := DictObj d');
             formatters = (case extra_formats of
                             Some ef \<Rightarrow> dict_update ef (ERROR_FORMATTERS e)
                           | None \<Rightarrow> ERROR_FORMATTERS e);
             r = build_error_response e h request status_code error_msg extra_formats hdrs details (Some a)
         in snd r = h'
          \<and> h' a = DictObj d'
          \<and> (\<forall>b. b \<noteq> a \<longrightarrow> h' b = h b)
          \<and> map_of d' ''error_msg'' = Some (PStr error_msg)
          \<and> map_of d' ''details'' = Some details
          \<and> (\<forall>k. k \<noteq> ''error_msg'' \<and> k \<noteq> ''details'' \<longrightarrow> map_of d' k = map_of d k)
          \<and> filter (\<lambda>p. fst p \<noteq> ''error_msg'' \<and> fst p \<noteq> ''details'') d' =
              filter (\<lambda>p. fst p \<noteq> ''error_msg'' \<and> fst p \<noteq> ''details'') d
          \<and> fst r = build_response e h' request status_code d' formatters hdrs
          \<and> (\<forall>rh ct f. request_headers h' request = Inr rh
                \<and> resolve_content_type e rh formatters = Inr ct
                \<and> map_of formatters ct = Some f
                \<longrightarrow> fst r = (case f request ct status_code d' of
                               Inl x \<Rightarrow> Inl x
                             | Inr b \<Rightarrow> Inr (Response status_code (Some b) (Some ct) (set_headers hdrs))))"
proof -
  define d' where "d' = dict_update d [(''error_msg'', PStr error_msg), (''details'', details)]"
  define h' where "h' = h(a := DictObj d')"
  define formatters where "formatters = (case extra_formats of
                             Some ef \<Rightarrow> dict_update ef (ERROR_FORMATTERS e)
                           | None \<Rightarrow> ERROR_FORMATTERS e)"
  define r where "r = build_error_response e h request status_code error_msg extra_formats hdrs details (Some a)"
  have r: "r = (build_response e h' request status_code d' formatters hdrs, h')"
    using assms
    by (simp add: r_def build_error_response_def h'_def d'_def formatters_def Let_def
        del: dict_update.simps)
  have 1: "snd r = h'" and 2: "fst r = build_response e h' request status_code d' formatters hdrs"
    by (simp_all add: r)
  have 3: "h' a = DictObj d'" and 4: "\<forall>b. b \<noteq> a \<longrightarrow> h' b = h b"
    by (simp_all add: h'_def)
  have 5: "map_of d' ''error_msg'' = Some (PStr error_msg)" and 6: "map_of d' ''details'' = Some details"
    and 7: "\<forall>k. k \<noteq> ''error_msg'' \<and> k \<noteq> ''details'' \<longrightarrow> map_of d' k = map_of d k"
    unfolding d'_def context_update_lookup by simp_all
  have 8: "filter (\<lambda>p. fst p \<noteq> ''error_msg'' \<and> fst p \<noteq> ''details'') d' =
              filter (\<lambda>p. fst p \<noteq> ''error_msg'' \<and> fst p \<noteq> ''details'') d"
    unfolding d'_def by (rule context_update_others)
  have 9: "\<forall>rh ct f. request_headers h' request = Inr rh
                \<and> resolve_content_type e rh formatters = Inr ct
                \<and> map_of formatters ct = Some f
                \<longrightarrow> fst r = (case f request ct status_code d' of
                               Inl x \<Rightarrow> Inl x
                             | Inr b \<Rightarrow> Inr (Response status_code (Some b) (Some ct) (set_headers hdrs)))"
    by (simp add: 2 build_response_def)
  from 1 2 3 4 5 6 7 8 9 show ?thesis
    unfolding Let_def d'_def [symmetric] h'_def [symmetric] formatters_def [symmetric] r_def [symmetric]
    by blast
qed

text \<open>A caller's dictionary with an old message and a key of its own.\<close>

theorem context_updated_in_place_witness:
  "sample_heap [(''x-requested-with'', ''XMLHttpRequest'')]
      [(''error_msg'', PStr ''old''), (''trace'', PStr ''t'')] 1 =
     DictObj [(''error_msg'', PStr ''old''), (''trace'', PStr ''t'')]
   \<and> snd (build_error_response sample_env
        (sample_heap [(''x-requested-with'', ''XMLHttpRequest'')]
           [(''error_msg'', PStr ''old''), (''trace'', PStr ''t'')])
        (ArgRef 0) 404 ''Page Not Found'' None None PNone (Some 1)) 1 =
     DictObj [(''error_msg'', PStr ''Page Not Found''), (''trace'', PStr ''t''), (''details'', PNone)]
   \<and> fst (build_error_response sample_env
        (sample_heap [(''x-requested-with'', ''XMLHttpRequest'')]
           [(''error_msg'', PStr ''old''), (''trace'', PStr ''t'')])
        (ArgRef 0) 404 ''Page Not Found'' None None PNone (Some 1)) =
     Inr (Response 404 (Some (Str (json_dumps (PDict [(''description'', PStr ''Page Not Found'')]))))
            (Some ''application/json; charset=utf-8'') [])"
proof -
  let ?h = "sample_heap [(''x-requested-with'', ''XMLHttpRequest'')]
      [(''error_msg'', PStr ''old''), (''trace'', PStr ''t'')]"
  let ?d' = "[(''error_msg'', PStr ''Page Not Found''), (''trace'', PStr ''t''), (''details'', PNone)]"
  have h1: "?h 1 = DictObj [(''error_msg'', PStr ''old''), (''trace'', PStr ''t'')]"
    by (simp add: sample_heap_def)
  have d': "dict_update [(''error_msg'', PStr ''old''), (''trace'', PStr ''t'')]
      [(''error_msg'', PStr ''Page Not Found''), (''details'', PNone)] = ?d'"
    by simp
  note inst = context_updated_in_place [where h = "?h" and a = 1 and e = sample_env
      and request = "ArgRef 0" and status_code = 404 and error_msg = "''Page Not Found''"
      and extra_formats = None and hdrs = None and details = PNone, OF h1, unfolded Let_def d' option.case]
  have rh: "request_headers (?h(1 := DictObj ?d')) (ArgRef 0) = Inr [(''x-requested-with'', ''XMLHttpRequest'')]"
    by (simp add: request_headers_def sample_heap_def)
  have ct: "resolve_content_type sample_env [(''x-requested-with'', ''XMLHttpRequest'')]
      (ERROR_FORMATTERS sample_env) = Inr ''application/json; charset=utf-8''"
    by (simp add: resolve_content_type_def headers_get_def headers_lookup_def lower_header_names)
  have f: "map_of (ERROR_FORMATTERS sample_env) ''application/json; charset=utf-8'' =
      Some (get_json_error_response sample_env)"
    by (simp add: ERROR_FORMATTERS_def)
  have js: "get_json_error_response sample_env (ArgRef 0) ''application/json; charset=utf-8'' 404 ?d' =
      Inr (Str (json_dumps (PDict [(''description'', PStr ''Page Not Found'')])))"
    by (simp add: get_json_error_response_def py_str_def)
  note s = inst [THEN conjunct1]
  note applied = inst [THEN conjunct2, THEN conjunct2, THEN conjunct2, THEN conjunct2,
      THEN conjunct2, THEN conjunct2, THEN conjunct2, THEN conjunct2, rule_format,
      OF conjI [OF rh conjI [OF ct f]]]
  from applied
  have "fst (build_error_response sample_env ?h (ArgRef 0) 404 ''Page Not Found'' None None PNone (Some 1)) =
     Inr (Response 404 (Some (Str (json_dumps (PDict [(''description'', PStr ''Page Not Found'')]))))
            (Some ''application/json; charset=utf-8'') [])"
    by (simp only: js set_headers_def sum.case option.case)
  with s h1 show ?thesis by simp
qed

end
